theory Spec2Isabelle
  imports Complex_Main "HOL-Library.Multiset"
begin

section \<open>The data store: tables of the two migrations\<close>

text \<open>
  The tables of \<^verbatim>\<open>supabase/migrations/20250712064041-...sql\<close> and
  \<^verbatim>\<open>20250712090806-...sql\<close>, one record per row and one list per table.
  Columns that no statement modelled below reads or writes (location, bio, avatar,
  availability, description, category, the \<^verbatim>\<open>created_at\<close>/\<^verbatim>\<open>updated_at\<close>
  stamps other than the one messages are ordered by, and the surrogate key of tables
  that are never addressed by it) are left out. A UUID is kept as the text the client
  sends.
\<close>

type_synonym uuid = string

text \<open>
  Free text typed into a form is a JavaScript string: a sequence of UTF-16 code units,
  here natural numbers below \<open>65536\<close>. \<open>utf16\<close> writes one down from its Latin-1
  characters.
\<close>

type_synonym js_string = "nat list"

definition utf16 :: "string \<Rightarrow> js_string" where
  "utf16 s = map of_char s"

datatype app_role = Admin | User

datatype request_status = Pending | Accepted | Completed | Cancelled | Rejected

record profile =
  pf_user_id :: uuid
  full_name :: string
  is_public :: bool
  is_banned :: bool
  successful_swaps :: int
  average_rating :: int \<comment> \<open>\<^verbatim>\<open>DECIMAL(3,2)\<close>, held as a count of hundredths\<close>

record user_role =
  ur_user_id :: uuid
  ur_role :: app_role

record skill =
  sk_id :: uuid
  sk_user_id :: uuid
  title :: string
  is_offering :: bool
  is_approved :: bool

record skill_request =
  sr_id :: uuid
  requester_id :: uuid
  provider_id :: uuid
  offered_skill_id :: uuid
  wanted_skill_id :: uuid
  sr_message :: "js_string option"
  status :: request_status

record rating =
  request_id :: uuid
  rater_id :: uuid
  rated_id :: uuid
  rating_value :: int \<comment> \<open>column \<^verbatim>\<open>rating INTEGER\<close>\<close>
  feedback :: "js_string option"

record message =
  skill_request_id :: uuid
  sender_id :: uuid
  content :: string
  created_at :: int \<comment> \<open>\<^verbatim>\<open>TIMESTAMP WITH TIME ZONE\<close>, microseconds of the epoch\<close>
  is_read :: bool

record database =
  auth_users :: "uuid list"
  profiles :: "profile list"
  user_roles :: "user_role list"
  skills :: "skill list"
  skill_requests :: "skill_request list"
  ratings :: "rating list"
  messages :: "message list"

text \<open>
  What a statement can fail with. A statement that fails leaves the store as it was
  (the statement is its own transaction), so a failing operation returns the error and
  no new store.
\<close>

datatype db_error =
    RlsViolation \<comment> \<open>new row violates row-level security policy\<close>
  | CheckViolation
  | UniqueViolation
  | ForeignKeyViolation
  | NumericOverflow

text \<open>
  PostgREST's \<^verbatim>\<open>.single()\<close>: the row when the query has exactly one, an error
  (and \<^verbatim>\<open>data: null\<close>) otherwise.
\<close>

definition single :: "'a list \<Rightarrow> 'a option" where
  "single rows = (case rows of [r] \<Rightarrow> Some r | _ \<Rightarrow> None)"

section \<open>Row-level security\<close>

text \<open>
  \<^verbatim>\<open>auth.uid()\<close> is the signed-in caller; every page modelled here leaves for
  \<^verbatim>\<open>/auth\<close> when there is none, so the caller is a UUID. The client connects as a
  role that does not own the tables, so every statement it sends, and every statement
  run on its behalf by a function that is not \<^verbatim>\<open>SECURITY DEFINER\<close>, is filtered by
  these policies. A policy with \<^verbatim>\<open>USING\<close> only, for \<^verbatim>\<open>UPDATE\<close> or \<^verbatim>\<open>ALL\<close>,
  applies the same expression to the new row.
\<close>

definition is_admin :: "database \<Rightarrow> uuid \<Rightarrow> bool" where
  "is_admin db user_uuid =
     list_ex (\<lambda>r. ur_user_id r = user_uuid \<and> ur_role r = Admin) (user_roles db)"

definition skill_requests_select_policy :: "database \<Rightarrow> uuid \<Rightarrow> skill_request \<Rightarrow> bool" where
  "skill_requests_select_policy db uid r =
     (uid = requester_id r \<or> uid = provider_id r \<or> is_admin db uid)"

definition skill_requests_insert_policy :: "uuid \<Rightarrow> skill_request \<Rightarrow> bool" where
  "skill_requests_insert_policy uid r = (uid = requester_id r)"

definition skill_requests_update_policy :: "database \<Rightarrow> uuid \<Rightarrow> skill_request \<Rightarrow> bool" where
  "skill_requests_update_policy db uid r =
     (uid = requester_id r \<or> uid = provider_id r \<or> is_admin db uid)"

definition select_skill_requests :: "uuid \<Rightarrow> database \<Rightarrow> skill_request list" where
  "select_skill_requests uid db = filter (skill_requests_select_policy db uid) (skill_requests db)"

section \<open>The request lifecycle: status writes\<close>

text \<open>
  \<^verbatim>\<open>supabase.from('skill_requests').update({ status }).eq('id', id)\<close>, sent by
  \<^verbatim>\<open>uid\<close>. The rows written are those with that id that the caller may read and
  update; a row the policy hides is skipped without an error. The new row is checked
  against the update policy again, and a row failing it fails the statement.
\<close>

definition update_status :: "uuid \<Rightarrow> uuid \<Rightarrow> request_status \<Rightarrow> database \<Rightarrow> db_error + database" where
  "update_status uid rid s db =
     (let hit = (\<lambda>r. sr_id r = rid \<and> skill_requests_select_policy db uid r
                      \<and> skill_requests_update_policy db uid r)
      in if list_ex (\<lambda>r. hit r \<and> \<not> skill_requests_update_policy db uid (r\<lparr>status := s\<rparr>))
              (skill_requests db)
         then Inl RlsViolation
         else Inr (db\<lparr>skill_requests :=
                    map (\<lambda>r. if hit r then r\<lparr>status := s\<rparr> else r) (skill_requests db)\<rparr>))"

text \<open>
  The four handlers of \<^verbatim>\<open>Requests\<close> (the second component of
  \<^verbatim>\<open>src/pages/Networks.tsx\<close>); \<^verbatim>\<open>handleCompleteSwap\<close> is the same statement in
  \<^verbatim>\<open>Networks\<close>, \<^verbatim>\<open>Requests\<close> and \<^verbatim>\<open>Chat\<close>. On \<open>Inl\<close> the handler shows the
  failure toast, on \<open>Inr\<close> the success toast, also when no row was written.
\<close>

definition handleAcceptRequest :: "uuid \<Rightarrow> uuid \<Rightarrow> database \<Rightarrow> db_error + database" where
  "handleAcceptRequest uid requestId db = update_status uid requestId Accepted db"

definition handleRejectRequest :: "uuid \<Rightarrow> uuid \<Rightarrow> database \<Rightarrow> db_error + database" where
  "handleRejectRequest uid requestId db = update_status uid requestId Rejected db"

definition handleDeleteRequest :: "uuid \<Rightarrow> uuid \<Rightarrow> database \<Rightarrow> db_error + database" where
  "handleDeleteRequest uid requestId db = update_status uid requestId Cancelled db"

definition handleCompleteSwap :: "uuid \<Rightarrow> uuid \<Rightarrow> database \<Rightarrow> db_error + database" where
  "handleCompleteSwap uid swapId db = update_status uid swapId Completed db"

text \<open>
  \<^verbatim>\<open>fetchRequests\<close>: the three lists the \<^verbatim>\<open>Requests\<close> page renders, and the
  controls it renders on them: Decline and Accept on every incoming row, Cancel on an
  outgoing row whose fetched status is pending, Complete on every active swap. The
  other pages fetch the same rows for the same buttons: \<^verbatim>\<open>Dashboard\<close> the incoming
  list, \<^verbatim>\<open>Networks\<close> the active swaps, and \<^verbatim>\<open>Chat\<close> renders Complete when the
  request it fetched is accepted.
\<close>

definition incomingRequests :: "uuid \<Rightarrow> database \<Rightarrow> skill_request list" where
  "incomingRequests uid db =
     filter (\<lambda>r. provider_id r = uid \<and> status r = Pending) (select_skill_requests uid db)"

definition outgoingRequests :: "uuid \<Rightarrow> database \<Rightarrow> skill_request list" where
  "outgoingRequests uid db =
     filter (\<lambda>r. requester_id r = uid \<and> (status r = Pending \<or> status r = Accepted))
       (select_skill_requests uid db)"

definition acceptedSwaps :: "uuid \<Rightarrow> database \<Rightarrow> skill_request list" where
  "acceptedSwaps uid db =
     filter (\<lambda>r. (requester_id r = uid \<or> provider_id r = uid) \<and> status r = Accepted)
       (select_skill_requests uid db)"

definition cancel_offered :: "uuid \<Rightarrow> database \<Rightarrow> skill_request list" where
  "cancel_offered uid db = filter (\<lambda>r. status r = Pending) (outgoingRequests uid db)"

text \<open>The terminal states of the lifecycle, as the specification names them.\<close>

definition terminal :: "request_status \<Rightarrow> bool" where
  "terminal s = (s = Completed \<or> s = Cancelled \<or> s = Rejected)"

definition participant :: "uuid \<Rightarrow> skill_request \<Rightarrow> bool" where
  "participant uid r = (uid = requester_id r \<or> uid = provider_id r)"

text \<open>A store with one swap between Ann and Bob, in a given status.\<close>

definition swap1 :: "request_status \<Rightarrow> skill_request" where
  "swap1 s = \<lparr>sr_id = ''r1'', requester_id = ''ann'', provider_id = ''bob'',
              offered_skill_id = ''s1'', wanted_skill_id = ''s2'', sr_message = None, status = s\<rparr>"

definition store1 :: "request_status \<Rightarrow> database" where
  "store1 s = \<lparr>auth_users = [''ann'', ''bob''],
     profiles = [\<lparr>pf_user_id = ''ann'', full_name = ''Ann'', is_public = True, is_banned = False,
                  successful_swaps = 0, average_rating = 0\<rparr>,
                 \<lparr>pf_user_id = ''bob'', full_name = ''Bob'', is_public = True, is_banned = False,
                  successful_swaps = 0, average_rating = 0\<rparr>],
     user_roles = [\<lparr>ur_user_id = ''ann'', ur_role = User\<rparr>, \<lparr>ur_user_id = ''bob'', ur_role = User\<rparr>],
     skills = [\<lparr>sk_id = ''s1'', sk_user_id = ''ann'', title = ''Piano'', is_offering = True, is_approved = True\<rparr>,
               \<lparr>sk_id = ''s2'', sk_user_id = ''bob'', title = ''French'', is_offering = True, is_approved = True\<rparr>],
     skill_requests = [swap1 s],
     ratings = [],
     messages = []\<rparr>"

section \<open>Ratings and the profile aggregate\<close>

definition ratings_select_policy :: "database \<Rightarrow> uuid \<Rightarrow> rating \<Rightarrow> bool" where
  "ratings_select_policy db uid r = (uid = rater_id r \<or> uid = rated_id r \<or> is_admin db uid)"

definition ratings_insert_policy :: "uuid \<Rightarrow> rating \<Rightarrow> bool" where
  "ratings_insert_policy uid r = (uid = rater_id r)"

definition profiles_select_policy :: "database \<Rightarrow> uuid \<Rightarrow> profile \<Rightarrow> bool" where
  "profiles_select_policy db uid p = (is_public p \<or> uid = pf_user_id p \<or> is_admin db uid)"

definition profiles_update_policy :: "database \<Rightarrow> uuid \<Rightarrow> profile \<Rightarrow> bool" where
  "profiles_update_policy db uid p = (uid = pf_user_id p \<or> is_admin db uid)"

definition select_ratings :: "uuid \<Rightarrow> database \<Rightarrow> rating list" where
  "select_ratings uid db = filter (ratings_select_policy db uid) (ratings db)"

text \<open>
  Storing a quotient \<open>a / b\<close> (\<open>b > 0\<close>) in a \<^verbatim>\<open>numeric\<close> column of fixed scale rounds
  it to the nearest unit of that scale, ties away from zero. \<^verbatim>\<open>AVG\<close> of an integer column
  is the exact quotient of sum and count carried to at least sixteen significant digits,
  which rounds to hundredths the way the exact quotient does for any table of fewer than
  \<open>10\<^sup>1\<^sup>3\<close> rows.
\<close>

definition round_div :: "int \<Rightarrow> int \<Rightarrow> int" where
  "round_div a b = (if 0 \<le> a then (2 * a + b) div (2 * b) else - ((2 * (- a) + b) div (2 * b)))"

definition avg_rating :: "int list \<Rightarrow> int" where
  \<comment> \<open>\<^verbatim>\<open>COALESCE(AVG(rating), 0.0)\<close> as the \<^verbatim>\<open>DECIMAL(3,2)\<close> column takes it, in hundredths\<close>
  "avg_rating xs = (if xs = [] then 0 else round_div (100 * sum_list xs) (int (length xs)))"

text \<open>
  \<^verbatim>\<open>update_profile_stats()\<close>, the \<^verbatim>\<open>AFTER INSERT\<close> row trigger of \<^verbatim>\<open>ratings\<close>. The
  function is declared without \<^verbatim>\<open>SECURITY DEFINER\<close> (unlike \<^verbatim>\<open>handle_new_user\<close>,
  \<^verbatim>\<open>get_user_role\<close> and \<^verbatim>\<open>is_admin\<close> of the first migration), so its two sub-selects
  and its \<^verbatim>\<open>UPDATE\<close> run as the caller who inserted the rating: the sub-selects see the
  ratings that caller may read, and the update reaches the profiles that caller may
  update. \<open>db\<close> already holds the new rating. A value of ten or more does not fit
  \<^verbatim>\<open>DECIMAL(3,2)\<close> and fails the statement.
\<close>

definition update_profile_stats :: "uuid \<Rightarrow> rating \<Rightarrow> database \<Rightarrow> db_error + database" where
  "update_profile_stats uid new db =
     (let seen = filter (\<lambda>r. rated_id r = rated_id new) (select_ratings uid db);
          avg = avg_rating (map rating_value seen);
          swaps = int (length (remdups (map request_id seen)));
          hit = (\<lambda>p. pf_user_id p = rated_id new \<and> profiles_select_policy db uid p
                       \<and> profiles_update_policy db uid p)
      in if list_ex hit (profiles db) \<and> 1000 \<le> \<bar>avg\<bar> then Inl NumericOverflow
         else Inr (db\<lparr>profiles :=
                    map (\<lambda>p. if hit p then p\<lparr>successful_swaps := swaps, average_rating := avg\<rparr> else p)
                      (profiles db)\<rparr>))"

text \<open>
  \<^verbatim>\<open>supabase.from('ratings').insert({...})\<close> sent by \<open>uid\<close>: the insert policy, the
  \<^verbatim>\<open>CHECK\<close> on the score, \<^verbatim>\<open>UNIQUE(request_id, rater_id)\<close>, the three foreign keys,
  then the trigger, all in the one statement: an error at any step leaves no row.
\<close>

definition already_rated :: "database \<Rightarrow> uuid \<Rightarrow> uuid \<Rightarrow> bool" where
  "already_rated db rid uid = list_ex (\<lambda>r. request_id r = rid \<and> rater_id r = uid) (ratings db)"

definition insert_rating :: "uuid \<Rightarrow> rating \<Rightarrow> database \<Rightarrow> db_error + database" where
  "insert_rating uid new db =
     (if \<not> ratings_insert_policy uid new then Inl RlsViolation
      else if \<not> (1 \<le> rating_value new \<and> rating_value new \<le> 5) then Inl CheckViolation
      else if already_rated db (request_id new) (rater_id new) then Inl UniqueViolation
      else if \<not> (list_ex (\<lambda>r. sr_id r = request_id new) (skill_requests db)
                 \<and> rater_id new \<in> set (auth_users db) \<and> rated_id new \<in> set (auth_users db))
        then Inl ForeignKeyViolation
      else update_profile_stats uid new (db\<lparr>ratings := ratings db @ [new]\<rparr>))"

definition rating_key :: "rating \<Rightarrow> uuid \<times> uuid" where
  "rating_key r = (request_id r, rater_id r)"

definition ratings_unique :: "database \<Rightarrow> bool" where
  "ratings_unique db = distinct (map rating_key (ratings db))"

subsection \<open>The rating page (\<^verbatim>\<open>src/pages/Rate.tsx\<close>)\<close>

text \<open>
  JavaScript's \<^verbatim>\<open>s.trim() || null\<close>. \<^verbatim>\<open>String.prototype.trim\<close> strips, at both
  ends, the code units of ECMAScript's WhiteSpace and LineTerminator: U+0009 to U+000D,
  U+0020, U+00A0, U+1680, U+2000 to U+200A, U+2028, U+2029, U+202F, U+205F, U+3000 and
  U+FEFF.
\<close>

definition is_space :: "nat \<Rightarrow> bool" where
  "is_space c = ((0x09 \<le> c \<and> c \<le> 0x0D) \<or> c = 0x20 \<or> c = 0xA0 \<or> c = 0x1680
                 \<or> (0x2000 \<le> c \<and> c \<le> 0x200A) \<or> c = 0x2028 \<or> c = 0x2029
                 \<or> c = 0x202F \<or> c = 0x205F \<or> c = 0x3000 \<or> c = 0xFEFF)"

definition trim :: "js_string \<Rightarrow> js_string" where
  "trim s = rev (dropWhile is_space (rev (dropWhile is_space s)))"

definition or_null :: "js_string \<Rightarrow> js_string option" where
  "or_null s = (if s = [] then None else Some s)"

text \<open>
  What the client does besides the statement it sends: it returns early without sending
  anything, or it shows the failure toast for the store's error.
\<close>

datatype client_error = Returned | Failed db_error


text \<open>
  \<^verbatim>\<open>submitRating\<close>, run on the button, against the store as it is then; \<open>rating\<close> is the
  star count of the form (\<open>0\<close> while none is chosen).
\<close>

definition submitRating ::
  "skill_request option \<Rightarrow> uuid \<Rightarrow> int \<Rightarrow> js_string \<Rightarrow> database \<Rightarrow> client_error + database" where
  "submitRating skillRequest uid rating feedback_text db =
     (case skillRequest of
        None \<Rightarrow> Inl Returned
      | Some sr \<Rightarrow>
          if rating = 0 then Inl Returned
          else let partnerId = (if requester_id sr = uid then provider_id sr else requester_id sr)
               in (case insert_rating uid
                          \<lparr>request_id = sr_id sr, rater_id = uid, rated_id = partnerId,
                           rating_value = rating, feedback = or_null (trim feedback_text)\<rparr> db of
                     Inl e \<Rightarrow> Inl (Failed e)
                   | Inr db' \<Rightarrow> Inr db'))"

subsection \<open>Ratings received, and two stores to run the rating on\<close>

definition rated_rows :: "database \<Rightarrow> uuid \<Rightarrow> rating list" where
  "rated_rows db u = filter (\<lambda>r. rated_id r = u) (ratings db)"

text \<open>Ann's rating of Bob for a request.\<close>

definition ann_rates :: "uuid \<Rightarrow> int \<Rightarrow> rating" where
  "ann_rates rid v = \<lparr>request_id = rid, rater_id = ''ann'', rated_id = ''bob'',
                       rating_value = v, feedback = None\<rparr>"

text \<open>
  Ann, here an administrator, has completed three swaps with Bob and rated two of them.
\<close>

definition store3 :: database where
  "store3 = (store1 Completed)
     \<lparr>profiles := [\<lparr>pf_user_id = ''ann'', full_name = ''Ann'', is_public = True, is_banned = False,
                     successful_swaps = 0, average_rating = 0\<rparr>,
                    \<lparr>pf_user_id = ''bob'', full_name = ''Bob'', is_public = True, is_banned = False,
                     successful_swaps = 2, average_rating = 450\<rparr>],
      user_roles := [\<lparr>ur_user_id = ''ann'', ur_role = Admin\<rparr>, \<lparr>ur_user_id = ''bob'', ur_role = User\<rparr>],
      skill_requests := [swap1 Completed, (swap1 Completed)\<lparr>sr_id := ''r2''\<rparr>,
                         (swap1 Completed)\<lparr>sr_id := ''r3''\<rparr>],
      ratings := [ann_rates ''r1'' 5, ann_rates ''r2'' 4]\<rparr>"

definition stats :: "database \<Rightarrow> (uuid \<times> int \<times> int) list" where
  "stats db = map (\<lambda>p. (pf_user_id p, average_rating p, successful_swaps p)) (profiles db)"

text \<open>The first store after Ann has rated her completed swap with Bob.\<close>

definition store1_rated :: database where
  "store1_rated = (store1 Completed)
     \<lparr>ratings := [\<lparr>request_id = ''r1'', rater_id = ''ann'', rated_id = ''bob'',
                    rating_value = 5, feedback = Some (utf16 ''great'')\<rparr>]\<rparr>"



section \<open>Messages of a request (\<^verbatim>\<open>Chat\<close>)\<close>

text \<open>
  The select policy of \<^verbatim>\<open>messages\<close>; its sub-select on \<^verbatim>\<open>skill_requests\<close> runs as
  the caller too.
\<close>

definition messages_select_policy :: "database \<Rightarrow> uuid \<Rightarrow> message \<Rightarrow> bool" where
  "messages_select_policy db uid m =
     (sender_id m = uid \<or>
      list_ex (\<lambda>sr. sr_id sr = skill_request_id m \<and> (requester_id sr = uid \<or> provider_id sr = uid))
        (select_skill_requests uid db))"

definition select_messages :: "uuid \<Rightarrow> database \<Rightarrow> message list" where
  "select_messages uid db = filter (messages_select_policy db uid) (messages db)"

text \<open>
  \<^verbatim>\<open>fetchChatData\<close>: the \<^verbatim>\<open>messages\<close> state of the page afterwards. When the request
  cannot be read the function throws before it asks for the messages, and the state
  keeps its initial empty list. \<^verbatim>\<open>.order('created_at', { ascending: true })\<close> is a
  sort on that column; rows with equal stamps come in an order the store does not fix,
  here the order of the table.
\<close>

definition fetchChatData :: "uuid \<Rightarrow> uuid \<Rightarrow> database \<Rightarrow> message list" where
  "fetchChatData uid requestId db =
     (case single (filter (\<lambda>r. sr_id r = requestId) (select_skill_requests uid db)) of
        None \<Rightarrow> []
      | Some requestData \<Rightarrow>
          sort_key created_at (filter (\<lambda>m. skill_request_id m = requestId) (select_messages uid db)))"

text \<open>The first store, accepted, with three messages stored out of their time order.\<close>

definition chat1 :: database where
  "chat1 = (store1 Accepted)
     \<lparr>messages := [\<lparr>skill_request_id = ''r1'', sender_id = ''bob'', content = ''see you'', created_at = 30, is_read = False\<rparr>,
                   \<lparr>skill_request_id = ''r1'', sender_id = ''ann'', content = ''hi'', created_at = 10, is_read = True\<rparr>,
                   \<lparr>skill_request_id = ''r9'', sender_id = ''bob'', content = ''other'', created_at = 15, is_read = False\<rparr>,
                   \<lparr>skill_request_id = ''r1'', sender_id = ''bob'', content = ''hello'', created_at = 20, is_read = False\<rparr>]\<rparr>"

section \<open>Creating a request\<close>

text \<open>
  \<^verbatim>\<open>supabase.from('skill_requests').insert({...})\<close> sent by \<open>uid\<close>: the insert policy,
  the primary key (the id is the store's \<^verbatim>\<open>gen_random_uuid()\<close>, passed in here), the four
  foreign keys. The table has no other constraint.
\<close>

definition insert_skill_request :: "uuid \<Rightarrow> skill_request \<Rightarrow> database \<Rightarrow> db_error + database" where
  "insert_skill_request uid new db =
     (if \<not> skill_requests_insert_policy uid new then Inl RlsViolation
      else if list_ex (\<lambda>r. sr_id r = sr_id new) (skill_requests db) then Inl UniqueViolation
      else if \<not> (requester_id new \<in> set (auth_users db) \<and> provider_id new \<in> set (auth_users db)
                 \<and> list_ex (\<lambda>s. sk_id s = offered_skill_id new) (skills db)
                 \<and> list_ex (\<lambda>s. sk_id s = wanted_skill_id new) (skills db))
        then Inl ForeignKeyViolation
      else Inr (db\<lparr>skill_requests := skill_requests db @ [new]\<rparr>))"

text \<open>
  The form state of \<^verbatim>\<open>CreateRequest\<close> (\<^verbatim>\<open>src/pages/CreateRequest.tsx\<close>, first
  component) and its \<^verbatim>\<open>handleSubmitRequest\<close>.
\<close>

record create_request_page =
  selectedOfferedSkill :: string
  selectedWantedSkill :: string
  targetUser :: "profile option"
  message_text :: js_string

definition new_request :: "uuid \<Rightarrow> uuid \<Rightarrow> profile \<Rightarrow> create_request_page \<Rightarrow> skill_request" where
  "new_request new_id uid target page =
     \<lparr>sr_id = new_id, requester_id = uid, provider_id = pf_user_id target,
      offered_skill_id = selectedOfferedSkill page, wanted_skill_id = selectedWantedSkill page,
      sr_message = or_null (trim (message_text page)), status = Pending\<rparr>"

definition handleSubmitRequest ::
  "uuid option \<Rightarrow> create_request_page \<Rightarrow> uuid \<Rightarrow> database \<Rightarrow> client_error + database" where
  "handleSubmitRequest user page new_id db =
     (if selectedOfferedSkill page = [] \<or> selectedWantedSkill page = [] then Inl Returned
      else (case (user, targetUser page) of
              (Some uid, Some target) \<Rightarrow>
                (case insert_skill_request uid (new_request new_id uid target page) db of
                   Inl e \<Rightarrow> Inl (Failed e)
                 | Inr db' \<Rightarrow> Inr db')
            | _ \<Rightarrow> Inl Returned))"

text \<open>Ann's form, asking Bob again for the swap of the first store.\<close>

definition page1 :: create_request_page where
  "page1 = \<lparr>selectedOfferedSkill = ''s1'', selectedWantedSkill = ''s2'',
            targetUser = Some \<lparr>pf_user_id = ''bob'', full_name = ''Bob'', is_public = True,
                                is_banned = False, successful_swaps = 0, average_rating = 0\<rparr>,
            message_text = []\<rparr>"

subsection \<open>The prototype REST handler \<^verbatim>\<open>createSwapRequest\<close>\<close>

text \<open>
  The document store of the Express prototype: users with the names of the skills they
  offer, and swap requests (\<^verbatim>\<open>models/User\<close>, \<^verbatim>\<open>models/SwapRequest\<close>).
\<close>

record mongo_user =
  mu_id :: string
  skillsOffered :: "string list"

record swap_request =
  requester :: string
  recipient :: string
  offeredSkill :: string
  requestedSkill :: string
  swap_status :: request_status
  swap_message :: "string option"

record mongo =
  users :: "mongo_user list"
  swap_requests :: "swap_request list"

record request_body =
  body_recipient :: string
  body_offeredSkill :: string
  body_requestedSkill :: string
  body_message :: "string option"

datatype response =
    Created swap_request \<comment> \<open>201\<close>
  | BadRequest string \<comment> \<open>400\<close>
  | NotFound string \<comment> \<open>404\<close>
  | ServerError string \<comment> \<open>500, from the \<^verbatim>\<open>catch\<close>\<close>

definition findById :: "mongo_user list \<Rightarrow> string \<Rightarrow> mongo_user option" where
  "findById us i = find (\<lambda>u. mu_id u = i) us"

definition existingSwap :: "string \<Rightarrow> request_body \<Rightarrow> mongo \<Rightarrow> bool" where
  "existingSwap me body db =
     list_ex (\<lambda>s. requester s = me \<and> recipient s = body_recipient body
                 \<and> offeredSkill s = body_offeredSkill body
                 \<and> requestedSkill s = body_requestedSkill body \<and> swap_status s = Pending)
       (swap_requests db)"

text \<open>
  \<open>me\<close> is \<^verbatim>\<open>req.user._id\<close>. A requester that is not found makes the read of
  \<^verbatim>\<open>requester.skillsOffered\<close> throw, and an empty skill name fails the schema's
  \<^verbatim>\<open>required\<close> on save; both end in the \<^verbatim>\<open>catch\<close>.
\<close>

definition createSwapRequest :: "string \<Rightarrow> request_body \<Rightarrow> mongo \<Rightarrow> response \<times> mongo" where
  "createSwapRequest me body db =
     (case findById (users db) (body_recipient body) of
        None \<Rightarrow> (NotFound ''Recipient not found'', db)
      | Some recipientUser \<Rightarrow>
          (case findById (users db) me of
             None \<Rightarrow> (ServerError ''Server error'', db)
           | Some requester_user \<Rightarrow>
               if body_offeredSkill body \<notin> set (skillsOffered requester_user)
               then (BadRequest ''You do not have this skill to offer'', db)
               else if body_requestedSkill body \<notin> set (skillsOffered recipientUser)
               then (BadRequest ''Recipient does not have this skill'', db)
               else if existingSwap me body db
               then (BadRequest ''You already have a pending request for this swap'', db)
               else if body_offeredSkill body = [] \<or> body_requestedSkill body = []
               then (ServerError ''Server error'', db)
               else let swapRequest = \<lparr>requester = me, recipient = body_recipient body,
                          offeredSkill = body_offeredSkill body,
                          requestedSkill = body_requestedSkill body,
                          swap_status = Pending, swap_message = body_message body\<rparr>
                    in (Created swapRequest, db\<lparr>swap_requests := swap_requests db @ [swapRequest]\<rparr>)))"

text \<open>Ann and Bob in the prototype's store, with Ann's pending request.\<close>

definition body1 :: request_body where
  "body1 = \<lparr>body_recipient = ''bob'', body_offeredSkill = ''Piano'',
            body_requestedSkill = ''French'', body_message = None\<rparr>"

definition mongo1 :: mongo where
  "mongo1 = \<lparr>users = [\<lparr>mu_id = ''ann'', skillsOffered = [''Piano'']\<rparr>,
                      \<lparr>mu_id = ''bob'', skillsOffered = [''French'']\<rparr>],
             swap_requests = [\<lparr>requester = ''ann'', recipient = ''bob'', offeredSkill = ''Piano'',
                               requestedSkill = ''French'', swap_status = Pending,
                               swap_message = None\<rparr>]\<rparr>"

text \<open>The first store after Ann has sent the form \<open>page1\<close> once more.\<close>

definition store1_twice :: database where
  "store1_twice = (store1 Pending)\<lparr>skill_requests := [swap1 Pending, (swap1 Pending)\<lparr>sr_id := ''r2''\<rparr>]\<rparr>"

section \<open>Role resolution (\<^verbatim>\<open>fetchUserRole\<close>, \<^verbatim>\<open>src/hooks/useAuth.tsx\<close>)\<close>

text \<open>
  What the client gets back from a call it awaits: the promise never settles, or it
  settles after so many milliseconds. A select of \<^verbatim>\<open>user_roles\<close> with
  \<^verbatim>\<open>.maybeSingle()\<close> settles with \<^verbatim>\<open>error\<close> set, or rejects (the \<^verbatim>\<open>catch\<close> branch), or
  carries \<^verbatim>\<open>data\<close>: the role of the row, or \<^verbatim>\<open>null\<close>.
\<close>

datatype 'a settles = Never | After nat 'a

datatype select_result = SelectError | SelectThrew | SelectData "app_role option"

datatype insert_result = InsertOk | InsertError | InsertThrew

record backend =
  select_role :: "nat \<Rightarrow> select_result settles" \<comment> \<open>the answer to the \<open>k\<close>-th select sent, \<open>k\<close> from 0\<close>
  insert_admin :: "insert_result settles" \<comment> \<open>the answer to the insert of the admin row\<close>

definition maxRetries :: nat where
  "maxRetries = 5"

text \<open>
  \<^verbatim>\<open>attemptFetch\<close>, started at time \<open>t\<close> (milliseconds since \<^verbatim>\<open>fetchUserRole\<close> was
  called) with the closure's \<^verbatim>\<open>retryCount\<close>; \<open>base\<close> is the number of selects sent
  before the loop. It returns the time and the role it returns with (nothing, when a
  select never settles) and the times at which it sent a select. An error and an
  exception take the same steps: count the retry, wait 1000 ms, attempt again.
\<close>

function attemptFetch :: "backend \<Rightarrow> nat \<Rightarrow> nat \<Rightarrow> nat \<Rightarrow> (nat \<times> app_role) option \<times> nat list" where
  "attemptFetch be base retryCount t =
     (case select_role be (base + retryCount) of
        Never \<Rightarrow> (None, [t])
      | After d r \<Rightarrow>
          (case r of
             SelectData (Some role) \<Rightarrow> (Some (t + d, role), [t])
           | SelectData None \<Rightarrow> (Some (t + d, User), [t])
           | _ \<Rightarrow>
               if retryCount < maxRetries
               then (case attemptFetch be base (retryCount + 1) (t + d + 1000) of
                       (res, ts) \<Rightarrow> (res, t # ts))
               else (Some (t + d, User), [t])))"
  by pat_completeness auto
termination
  by (relation "measure (\<lambda>(be, base, retryCount, t). maxRetries - retryCount)") auto

declare attemptFetch.simps [simp del]

text \<open>
  \<^verbatim>\<open>fetchRole\<close>, the body of the promise: what it passes to \<^verbatim>\<open>resolve\<close> and when
  (nothing, when it hangs on a call), the times of the selects it sent, whether it sent
  the insert of an admin row, and whether it removed the \<^verbatim>\<open>admin_role_<userId>\<close> entry.
  \<open>adminIntent\<close> is \<^verbatim>\<open>localStorage.getItem(`admin_role_${userId}`)\<close>. An exception
  outside \<^verbatim>\<open>attemptFetch\<close> lands in the outer \<^verbatim>\<open>catch\<close>, which resolves \<^verbatim>\<open>'user'\<close>.
\<close>

record role_fetch =
  resolved :: "(nat \<times> app_role) option"
  select_times :: "nat list"
  insert_sent :: bool
  flag_removed :: bool

definition regular_fetch :: "backend \<Rightarrow> nat list \<Rightarrow> nat \<Rightarrow> bool \<Rightarrow> role_fetch" where
  \<comment> \<open>"Regular role fetching with retry logic", after the selects \<open>sent\<close>, from time \<open>t\<close>\<close>
  "regular_fetch be sent t ins =
     (case attemptFetch be (length sent) 0 t of
        (res, ts) \<Rightarrow> \<lparr>resolved = res, select_times = sent @ ts, insert_sent = ins,
                        flag_removed = False\<rparr>)"

definition fetchRole :: "string option \<Rightarrow> backend \<Rightarrow> role_fetch" where
  "fetchRole adminIntent be =
     (if adminIntent = Some ''admin'' then
        (case select_role be 0 of
           Never \<Rightarrow> \<lparr>resolved = None, select_times = [0], insert_sent = False, flag_removed = False\<rparr>
         | After d r \<Rightarrow>
             (case r of
                SelectThrew \<Rightarrow>
                  \<lparr>resolved = Some (d, User), select_times = [0], insert_sent = False,
                   flag_removed = False\<rparr>
              | SelectData (Some Admin) \<Rightarrow>
                  \<lparr>resolved = Some (d, Admin), select_times = [0], insert_sent = False,
                   flag_removed = True\<rparr>
              | SelectData _ \<Rightarrow> regular_fetch be [0] d False
              | SelectError \<Rightarrow>
                  (case insert_admin be of
                     Never \<Rightarrow>
                       \<lparr>resolved = None, select_times = [0], insert_sent = True,
                        flag_removed = False\<rparr>
                   | After e InsertOk \<Rightarrow>
                       \<lparr>resolved = Some (d + e, Admin), select_times = [0], insert_sent = True,
                        flag_removed = True\<rparr>
                   | After e InsertThrew \<Rightarrow>
                       \<lparr>resolved = Some (d + e, User), select_times = [0], insert_sent = True,
                        flag_removed = False\<rparr>
                   | After e InsertError \<Rightarrow> regular_fetch be [0] (d + e) True)))
      else regular_fetch be [] 0 False)"

text \<open>
  \<^verbatim>\<open>fetchUserRole\<close>: the promise takes the first \<^verbatim>\<open>resolve\<close>, the one of the 8000 ms
  timer or the one of \<^verbatim>\<open>fetchRole\<close>. The timer is set first, so it wins at exactly
  8000 ms. The timer does not stop \<^verbatim>\<open>fetchRole\<close>, whose selects, insert and removal of
  the entry go on after it.
\<close>

definition fetchUserRole :: "string option \<Rightarrow> backend \<Rightarrow> app_role" where
  "fetchUserRole adminIntent be =
     (case resolved (fetchRole adminIntent be) of
        None \<Rightarrow> User
      | Some (t, role) \<Rightarrow> if t < 8000 then role else User)"

subsection \<open>The answers of the store\<close>

text \<open>
  The policies of \<^verbatim>\<open>user_roles\<close> after the second migration. An insert without
  \<^verbatim>\<open>RETURNING\<close>, which is what \<^verbatim>\<open>.insert([...])\<close> sends, is covered by the
  \<^verbatim>\<open>FOR ALL\<close> policy "Only admins can manage roles" alone, its \<^verbatim>\<open>USING\<close> expression
  checked on the new row; \<^verbatim>\<open>is_admin\<close> is \<^verbatim>\<open>SECURITY DEFINER\<close> and reads the table as
  it is before the statement.
\<close>

definition user_roles_insert_policy :: "database \<Rightarrow> uuid \<Rightarrow> user_role \<Rightarrow> bool" where
  "user_roles_insert_policy db uid r = is_admin db uid"

definition insert_user_role :: "uuid \<Rightarrow> user_role \<Rightarrow> database \<Rightarrow> db_error + database" where
  \<comment> \<open>the policy, \<^verbatim>\<open>UNIQUE(user_id, role)\<close>, the foreign key\<close>
  "insert_user_role uid new db =
     (if \<not> user_roles_insert_policy db uid new then Inl RlsViolation
      else if list_ex (\<lambda>r. ur_user_id r = ur_user_id new \<and> ur_role r = ur_role new) (user_roles db)
        then Inl UniqueViolation
      else if ur_user_id new \<notin> set (auth_users db) then Inl ForeignKeyViolation
      else Inr (db\<lparr>user_roles := user_roles db @ [new]\<rparr>))"

text \<open>
  A select is covered by "Users can view their own role", by the \<^verbatim>\<open>FOR ALL\<close> policy and
  by "Admins can view all roles", whose expression is a sub-select of \<^verbatim>\<open>user_roles\<close>
  itself. A policy of a table that reads the same table makes the store refuse the
  statement ("infinite recursion detected in policy for relation user_roles", code
  42P17), for every caller and whatever the rows are: the select
  \<^verbatim>\<open>.from('user_roles').select('role').eq('user_id', userId).maybeSingle()\<close> that reaches
  the store comes back with \<^verbatim>\<open>error\<close> set.
\<close>

definition select_own_role :: "database \<Rightarrow> uuid \<Rightarrow> select_result" where
  "select_own_role db uid = SelectError"

text \<open>
  What stands between the client and the store: a call reaches the store and is
  answered by it, or comes back as an error, or rejects, or never comes back.
\<close>

datatype fault = Served | Errored | Threw

record network =
  select_fault :: "nat \<Rightarrow> fault settles"
  insert_fault :: "fault settles"

definition backend_of :: "database \<Rightarrow> uuid \<Rightarrow> network \<Rightarrow> backend" where
  "backend_of db uid net =
     \<lparr>select_role = (\<lambda>k. case select_fault net k of
                         Never \<Rightarrow> Never
                       | After d Served \<Rightarrow> After d (select_own_role db uid)
                       | After d Errored \<Rightarrow> After d SelectError
                       | After d Threw \<Rightarrow> After d SelectThrew),
      insert_admin = (case insert_fault net of
                        Never \<Rightarrow> Never
                      | After d Served \<Rightarrow>
                          After d (case insert_user_role uid \<lparr>ur_user_id = uid, ur_role = Admin\<rparr> db of
                                     Inl e \<Rightarrow> InsertError
                                   | Inr db' \<Rightarrow> InsertOk)
                      | After d Errored \<Rightarrow> After d InsertError
                      | After d Threw \<Rightarrow> After d InsertThrew)\<rparr>"

text \<open>A store that answers nothing but errors, at once; one where only the insert gets through.\<close>

definition all_errors :: backend where
  "all_errors = \<lparr>select_role = (\<lambda>k. After 0 SelectError), insert_admin = After 0 InsertError\<rparr>"

definition insert_gets_through :: backend where
  "insert_gets_through = \<lparr>select_role = (\<lambda>k. After 100 SelectError), insert_admin = After 150 InsertOk\<rparr>"

definition reads_fail :: network where
  "reads_fail = \<lparr>select_fault = (\<lambda>k. After 100 Errored), insert_fault = After 150 Served\<rparr>"

text \<open>An attempt fails: its select settles with an error, rejects, or never settles.\<close>

definition select_fails :: "backend \<Rightarrow> nat \<Rightarrow> bool" where
  "select_fails be k = (case select_role be k of After d (SelectData x) \<Rightarrow> False | _ \<Rightarrow> True)"

subsection \<open>The session handler around \<^verbatim>\<open>fetchUserRole\<close>\<close>

text \<open>
  The two \<^verbatim>\<open>localStorage\<close> entries of a user, \<^verbatim>\<open>cached_role_<userId>\<close> and
  \<^verbatim>\<open>admin_role_<userId>\<close>, and the answers to the two upserts of an admin row the handler
  may send before it calls \<^verbatim>\<open>fetchUserRole\<close>.
\<close>

record local_storage =
  cached_role :: "string option"
  admin_role :: "string option"

datatype upsert_result = UpsertOk | UpsertError | UpsertThrew

record upserts =
  upsert_intent :: "upsert_result settles"
  upsert_metadata :: "upsert_result settles"

definition role_name :: "app_role \<Rightarrow> string" where
  "role_name r = (case r of Admin \<Rightarrow> ''admin'' | User \<Rightarrow> ''user'')"

definition truthy :: "string option \<Rightarrow> bool" where
  \<comment> \<open>\<^verbatim>\<open>if (cachedRole)\<close>: neither \<^verbatim>\<open>null\<close> nor the empty string\<close>
  "truthy v = (case v of None \<Rightarrow> False | Some c \<Rightarrow> c \<noteq> [])"

text \<open>
  The callback of \<^verbatim>\<open>onAuthStateChange\<close> for a session with a user (\<^verbatim>\<open>useAuth.tsx\<close>
  142 to 220), from its last step to its first: the \<^verbatim>\<open>userRole\<close> it sets (nothing,
  when an upsert never settles or rejects, which ends the callback) and the entries it
  leaves. \<open>metadata_role\<close> is \<^verbatim>\<open>session.user.user_metadata?.role\<close>.
\<close>

definition resolve_by_fetch :: "local_storage \<Rightarrow> backend \<Rightarrow> string option \<times> local_storage" where
  "resolve_by_fetch ls be =
     (let role = role_name (fetchUserRole (admin_role ls) be)
      in (Some role,
          \<lparr>cached_role = Some role,
           admin_role = (if flag_removed (fetchRole (admin_role ls) be) then None
                         else admin_role ls)\<rparr>))"

definition resolve_by_metadata ::
  "local_storage \<Rightarrow> string option \<Rightarrow> upserts \<Rightarrow> backend \<Rightarrow> string option \<times> local_storage" where
  "resolve_by_metadata ls metadata_role ups be =
     (if metadata_role = Some ''admin'' then
        (case upsert_metadata ups of
           Never \<Rightarrow> (None, ls)
         | After d UpsertThrew \<Rightarrow> (None, ls)
         | After d UpsertOk \<Rightarrow> (Some ''admin'', ls\<lparr>cached_role := Some ''admin''\<rparr>)
         | After d UpsertError \<Rightarrow> resolve_by_fetch ls be)
      else resolve_by_fetch ls be)"

definition resolve_by_intent ::
  "local_storage \<Rightarrow> string option \<Rightarrow> upserts \<Rightarrow> backend \<Rightarrow> string option \<times> local_storage" where
  "resolve_by_intent ls metadata_role ups be =
     (if admin_role ls = Some ''admin'' then
        (case upsert_intent ups of
           Never \<Rightarrow> (None, ls)
         | After d UpsertThrew \<Rightarrow> (None, ls)
         | After d UpsertOk \<Rightarrow> (Some ''admin'', \<lparr>cached_role = Some ''admin'', admin_role = None\<rparr>)
         | After d UpsertError \<Rightarrow> resolve_by_metadata ls metadata_role ups be)
      else resolve_by_metadata ls metadata_role ups be)"

definition onAuthStateChange ::
  "local_storage \<Rightarrow> string option \<Rightarrow> upserts \<Rightarrow> backend \<Rightarrow> string option \<times> local_storage" where
  "onAuthStateChange ls metadata_role ups be =
     (if truthy (cached_role ls) then (cached_role ls, ls)
      else resolve_by_intent ls metadata_role ups be)"

text \<open>
  \<^verbatim>\<open>debugSetAdminRole\<close> of the landing page (\<^verbatim>\<open>Index\<close>, second component of
  \<^verbatim>\<open>src/pages/CreateRequest.tsx\<close>): it writes both entries, sends an upsert and reloads
  the page whatever the upsert answers.
\<close>

definition debugSetAdminRole :: "local_storage \<Rightarrow> local_storage" where
  "debugSetAdminRole ls = ls\<lparr>cached_role := Some ''admin'', admin_role := Some ''admin''\<rparr>"

text \<open>A store where the insert gets through after eight and a half seconds.\<close>

definition insert_too_late :: backend where
  "insert_too_late = \<lparr>select_role = (\<lambda>k. After 4000 SelectError), insert_admin = After 4500 InsertOk\<rparr>"

section \<open>Status writes: what the policy admits\<close>

lemma update_status_Inr:
  "update_status uid rid s db =
     Inr (db\<lparr>skill_requests :=
            map (\<lambda>r. if sr_id r = rid \<and> skill_requests_update_policy db uid r
                      then r\<lparr>status := s\<rparr> else r) (skill_requests db)\<rparr>)"
proof -
  have same: "skill_requests_update_policy db uid (r\<lparr>status := s\<rparr>)
              = skill_requests_update_policy db uid r" for r
    by (simp add: skill_requests_update_policy_def)
  have sel: "skill_requests_select_policy db uid r = skill_requests_update_policy db uid r" for r
    by (simp add: skill_requests_select_policy_def skill_requests_update_policy_def)
  have no: "\<not> list_ex (\<lambda>r. (sr_id r = rid \<and> skill_requests_select_policy db uid r
                \<and> skill_requests_update_policy db uid r)
                \<and> \<not> skill_requests_update_policy db uid (r\<lparr>status := s\<rparr>)) (skill_requests db)"
    by (simp add: same list_ex_iff)
  show ?thesis
    unfolding update_status_def Let_def using no by (simp add: sel cong: map_cong)
qed

lemma update_status_keeps_others:
  "update_status uid rid s db = Inr db' \<Longrightarrow>
     auth_users db' = auth_users db \<and> profiles db' = profiles db \<and> user_roles db' = user_roles db
     \<and> skills db' = skills db \<and> ratings db' = ratings db \<and> messages db' = messages db
     \<and> length (skill_requests db') = length (skill_requests db)"
  by (auto simp: update_status_Inr)

lemma update_status_hits:
  assumes "r \<in> set (skill_requests db)" and "skill_requests_update_policy db uid r"
  shows "\<exists>db'. update_status uid (sr_id r) s db = Inr db' \<and> r\<lparr>status := s\<rparr> \<in> set (skill_requests db')"
proof -
  let ?f = "\<lambda>x. if sr_id x = sr_id r \<and> skill_requests_update_policy db uid x
                 then x\<lparr>status := s\<rparr> else x"
  have "?f r \<in> ?f ` set (skill_requests db)" using assms(1) by (rule imageI)
  then have "r\<lparr>status := s\<rparr> \<in> set (map ?f (skill_requests db))" using assms(2) by simp
  then show ?thesis by (simp add: update_status_Inr)
qed

lemma update_status_stranger:
  assumes "\<not> is_admin db uid"
    and "\<forall>r \<in> set (skill_requests db). sr_id r = rid \<longrightarrow> \<not> participant uid r"
  shows "update_status uid rid s db = Inr db"
proof -
  have "map (\<lambda>r. if sr_id r = rid \<and> skill_requests_update_policy db uid r
                  then r\<lparr>status := s\<rparr> else r) (skill_requests db) = skill_requests db"
    using assms by (intro map_idI) (auto simp: skill_requests_update_policy_def participant_def)
  then show ?thesis by (simp add: update_status_Inr)
qed

lemma store1_update:
  "update_status ''ann'' ''r1'' s (store1 t) = Inr (store1 s)"
  "update_status ''bob'' ''r1'' s (store1 t) = Inr (store1 s)"
  by (simp_all add: update_status_Inr store1_def swap1_def skill_requests_update_policy_def)

lemma store1_facts:
  "swap1 t \<in> set (skill_requests (store1 t))"
  "participant ''ann'' (swap1 t)" "participant ''bob'' (swap1 t)"
  "sr_id (swap1 t) = ''r1''" "status (swap1 t) = t"
  "(swap1 t)\<lparr>status := s\<rparr> = swap1 s"
  "skill_requests (store1 t) = [swap1 t]"
  by (simp_all add: store1_def swap1_def participant_def)

section \<open>C1: status values and terminal states\<close>

text \<open>
  C1, as the specification has it: a status is one of the five values, and a status
  write by the requester or the provider against a request in a terminal state is
  rejected by the access policy. The update policy of \<^verbatim>\<open>skill_requests\<close> reads only
  the caller and the two participant columns, so it admits the write whatever the status
  is: here Bob, the provider, re-opens the request he had rejected.
\<close>

theorem terminal_status_write_counterexample:
  "terminal Rejected \<and> participant ''bob'' (swap1 Rejected)
   \<and> handleAcceptRequest ''bob'' ''r1'' (store1 Rejected) = Inr (store1 Accepted)
   \<and> skill_requests (store1 Accepted) = [swap1 Accepted]
   \<and> skill_requests (store1 Accepted) \<noteq> skill_requests (store1 Rejected)"
  by (simp add: handleAcceptRequest_def store1_update store1_facts terminal_def)
    (simp add: swap1_def)

text \<open>
  C1, amended: a status is one of the five values. The access policy admits a status
  write from the requester or the provider in every state of the request, terminal or
  not, and the row then carries the written status. What keeps a terminal request from
  being written in normal operation is the client: none of the lists it fetches for the
  status buttons, and so none of these buttons, shows a request in a terminal state.
\<close>

theorem status_write_admitted_in_every_state:
  assumes "r \<in> set (skill_requests db)" and "participant uid r"
  shows "status r \<in> {Pending, Accepted, Completed, Cancelled, Rejected}
    \<and> (\<exists>db'. update_status uid (sr_id r) s db = Inr db' \<and> r\<lparr>status := s\<rparr> \<in> set (skill_requests db'))
    \<and> list_all (\<lambda>x. \<not> terminal (status x))
         (incomingRequests uid db @ outgoingRequests uid db @ acceptedSwaps uid db)"
proof (intro conjI)
  show "status r \<in> {Pending, Accepted, Completed, Cancelled, Rejected}"
    by (cases "status r") simp_all
  have "skill_requests_update_policy db uid r"
    using assms(2) by (auto simp: skill_requests_update_policy_def participant_def)
  with assms(1) show "\<exists>db'. update_status uid (sr_id r) s db = Inr db'
      \<and> r\<lparr>status := s\<rparr> \<in> set (skill_requests db')"
    by (rule update_status_hits)
  show "list_all (\<lambda>x. \<not> terminal (status x))
         (incomingRequests uid db @ outgoingRequests uid db @ acceptedSwaps uid db)"
    by (auto simp: list_all_iff incomingRequests_def outgoingRequests_def acceptedSwaps_def
        terminal_def)
qed

theorem status_write_admitted_in_every_state_witness:
  "swap1 Completed \<in> set (skill_requests (store1 Completed))
   \<and> participant ''ann'' (swap1 Completed) \<and> terminal (status (swap1 Completed))
   \<and> (\<exists>db'. update_status ''ann'' ''r1'' Pending (store1 Completed) = Inr db'
         \<and> swap1 Pending \<in> set (skill_requests db'))"
  using status_write_admitted_in_every_state
    [of "swap1 Completed" "store1 Completed" "''ann''" Pending]
  by (simp add: store1_facts terminal_def)

section \<open>C6: cancelling a request\<close>

text \<open>
  C6, as the specification has it: only the requester may cancel, only while the request
  is pending, and a cancel by anyone else or in another status does not change the row.
  \<^verbatim>\<open>handleDeleteRequest\<close> writes \<^verbatim>\<open>cancelled\<close> to the row with the given id and
  names neither the requester nor the status; the policy admits both participants. So
  Ann's cancel of a request that Bob has accepted in the meantime changes the row, and so
  does the same statement sent by Bob, the provider.
\<close>

theorem cancel_counterexample:
  "handleDeleteRequest ''ann'' ''r1'' (store1 Accepted) = Inr (store1 Cancelled)
   \<and> handleDeleteRequest ''bob'' ''r1'' (store1 Pending) = Inr (store1 Cancelled)
   \<and> requester_id (swap1 Pending) \<noteq> ''bob''
   \<and> skill_requests (store1 Accepted) = [swap1 Accepted]
   \<and> skill_requests (store1 Pending) = [swap1 Pending]
   \<and> skill_requests (store1 Cancelled) = [swap1 Cancelled]
   \<and> swap1 Accepted \<noteq> swap1 Cancelled \<and> swap1 Pending \<noteq> swap1 Cancelled"
  by (simp add: handleDeleteRequest_def store1_update store1_facts) (simp add: swap1_def)

text \<open>
  C6, amended: the page offers Cancel only on requests the caller made and fetched as
  pending, and the requester's cancel of a pending request leaves it cancelled. The
  write itself is conditional on neither: it sets the status of the row with that id to
  cancelled whenever the caller is its requester, its provider or an administrator,
  whatever the status was, and it changes nothing when the caller is none of these.
\<close>

theorem cancel_request:
  "list_all (\<lambda>r. requester_id r = uid \<and> status r = Pending \<and> r \<in> set (skill_requests db))
     (cancel_offered uid db)
   \<and> (r \<in> set (skill_requests db) \<and> sr_id r = rid
        \<and> (uid = requester_id r \<or> uid = provider_id r \<or> is_admin db uid)
      \<longrightarrow> (\<exists>db'. handleDeleteRequest uid rid db = Inr db'
             \<and> r\<lparr>status := Cancelled\<rparr> \<in> set (skill_requests db')))
   \<and> (\<not> is_admin db uid \<and> (\<forall>x \<in> set (skill_requests db). sr_id x = rid \<longrightarrow> \<not> participant uid x)
      \<longrightarrow> handleDeleteRequest uid rid db = Inr db)"
proof (intro conjI impI)
  show "list_all (\<lambda>r. requester_id r = uid \<and> status r = Pending \<and> r \<in> set (skill_requests db))
     (cancel_offered uid db)"
    by (auto simp: list_all_iff cancel_offered_def outgoingRequests_def select_skill_requests_def)
next
  assume a: "r \<in> set (skill_requests db) \<and> sr_id r = rid
        \<and> (uid = requester_id r \<or> uid = provider_id r \<or> is_admin db uid)"
  then have "skill_requests_update_policy db uid r"
    by (simp add: skill_requests_update_policy_def)
  with a show "\<exists>db'. handleDeleteRequest uid rid db = Inr db'
             \<and> r\<lparr>status := Cancelled\<rparr> \<in> set (skill_requests db')"
    unfolding handleDeleteRequest_def using update_status_hits [of r db uid Cancelled] by auto
next
  assume "\<not> is_admin db uid \<and> (\<forall>x \<in> set (skill_requests db). sr_id x = rid \<longrightarrow> \<not> participant uid x)"
  then show "handleDeleteRequest uid rid db = Inr db"
    unfolding handleDeleteRequest_def by (simp add: update_status_stranger)
qed

theorem cancel_request_witness:
  "cancel_offered ''ann'' (store1 Pending) = [swap1 Pending]
   \<and> (\<exists>db'. handleDeleteRequest ''ann'' ''r1'' (store1 Pending) = Inr db'
         \<and> swap1 Cancelled \<in> set (skill_requests db'))
   \<and> \<not> is_admin (store1 Pending) ''eve''
   \<and> handleDeleteRequest ''eve'' ''r1'' (store1 Pending) = Inr (store1 Pending)"
proof -
  have adm: "\<not> is_admin (store1 Pending) u" for u
    by (simp add: is_admin_def store1_def)
  have off: "cancel_offered ''ann'' (store1 Pending) = [swap1 Pending]"
    by (simp add: cancel_offered_def outgoingRequests_def select_skill_requests_def
        skill_requests_select_policy_def store1_def swap1_def)
  from cancel_request [of "''ann''" "store1 Pending" "swap1 Pending" "''r1''"]
  have ann: "\<exists>db'. handleDeleteRequest ''ann'' ''r1'' (store1 Pending) = Inr db'
         \<and> swap1 Cancelled \<in> set (skill_requests db')"
    by (simp add: store1_facts) (simp add: swap1_def)
  from cancel_request [of "''eve''" "store1 Pending" "swap1 Pending" "''r1''"]
  have eve: "handleDeleteRequest ''eve'' ''r1'' (store1 Pending) = Inr (store1 Pending)"
    by (simp add: adm store1_facts) (simp add: swap1_def participant_def)
  show ?thesis using off ann eve adm by simp
qed

section \<open>C7: completing a swap\<close>

text \<open>
  C7: either participant of an accepted request may mark it completed, and that one
  write is enough. For a request in status accepted and a caller who is its requester or
  its provider, the page lists the request among the caller's active swaps (where the
  Complete button is), and \<^verbatim>\<open>handleCompleteSwap\<close> by that caller alone succeeds and
  leaves the row completed, every other column and table as it was.
\<close>

theorem complete_by_one_participant:
  assumes "r \<in> set (skill_requests db)" and "status r = Accepted" and "participant uid r"
  shows "r \<in> set (acceptedSwaps uid db)
    \<and> (\<exists>db'. handleCompleteSwap uid (sr_id r) db = Inr db'
          \<and> r\<lparr>status := Completed\<rparr> \<in> set (skill_requests db')
          \<and> length (skill_requests db') = length (skill_requests db)
          \<and> ratings db' = ratings db \<and> messages db' = messages db \<and> profiles db' = profiles db)"
proof
  show "r \<in> set (acceptedSwaps uid db)"
    using assms
    by (auto simp: acceptedSwaps_def select_skill_requests_def skill_requests_select_policy_def
        participant_def)
  have pol: "skill_requests_update_policy db uid r"
    using assms(3) by (auto simp: skill_requests_update_policy_def participant_def)
  from update_status_hits [OF assms(1) pol, of Completed]
  obtain db' where d: "update_status uid (sr_id r) Completed db = Inr db'"
    and m: "r\<lparr>status := Completed\<rparr> \<in> set (skill_requests db')" by blast
  from update_status_keeps_others [OF d] d m
  show "\<exists>db'. handleCompleteSwap uid (sr_id r) db = Inr db'
          \<and> r\<lparr>status := Completed\<rparr> \<in> set (skill_requests db')
          \<and> length (skill_requests db') = length (skill_requests db)
          \<and> ratings db' = ratings db \<and> messages db' = messages db \<and> profiles db' = profiles db"
    by (simp add: handleCompleteSwap_def)
qed

theorem complete_by_one_participant_witness:
  "swap1 Accepted \<in> set (skill_requests (store1 Accepted)) \<and> status (swap1 Accepted) = Accepted
   \<and> participant ''bob'' (swap1 Accepted)
   \<and> swap1 Accepted \<in> set (acceptedSwaps ''bob'' (store1 Accepted))
   \<and> (\<exists>db'. handleCompleteSwap ''bob'' ''r1'' (store1 Accepted) = Inr db'
         \<and> swap1 Completed \<in> set (skill_requests db'))"
  using complete_by_one_participant [of "swap1 Accepted" "store1 Accepted" "''bob''"]
  by (auto simp: store1_facts)

section \<open>Ratings: helper facts\<close>

lemma update_profile_stats_frame:
  "update_profile_stats uid new db = Inr db' \<Longrightarrow>
     ratings db' = ratings db \<and> user_roles db' = user_roles db
     \<and> skill_requests db' = skill_requests db \<and> auth_users db' = auth_users db
     \<and> messages db' = messages db \<and> skills db' = skills db"
  by (auto simp: update_profile_stats_def Let_def split: if_splits)

lemma insert_rating_Inr:
  assumes "insert_rating uid new db = Inr db'"
  shows "ratings db' = ratings db @ [new]" and "uid = rater_id new"
    and "\<not> already_rated db (request_id new) (rater_id new)"
    and "1 \<le> rating_value new \<and> rating_value new \<le> 5"
    and "user_roles db' = user_roles db"
    and "update_profile_stats uid new (db\<lparr>ratings := ratings db @ [new]\<rparr>) = Inr db'"
  using assms
  by (auto simp: insert_rating_def ratings_insert_policy_def split: if_splits
      dest!: update_profile_stats_frame)

lemma already_rated_iff:
  "already_rated db rid uid \<longleftrightarrow> (rid, uid) \<in> rating_key ` set (ratings db)"
  by (auto simp: already_rated_def list_ex_iff rating_key_def)

lemma insert_rating_duplicate:
  assumes "already_rated db (request_id new) (rater_id new)"
  shows "\<exists>e. insert_rating uid new db = Inl e"
  using assms by (simp add: insert_rating_def)

lemma insert_rating_partner:
  assumes "insert_rating uid new db = Inr db'" and "uid \<noteq> rated_id new" and "\<not> is_admin db uid"
  shows "db' = db\<lparr>ratings := ratings db @ [new]\<rparr>"
proof -
  let ?db1 = "db\<lparr>ratings := ratings db @ [new]\<rparr>"
  have adm: "\<not> is_admin ?db1 uid" using assms(3) by (simp add: is_admin_def)
  have miss: "\<not> (pf_user_id p = rated_id new \<and> profiles_select_policy ?db1 uid p
                  \<and> profiles_update_policy ?db1 uid p)" for p
    using assms(2) adm by (auto simp: profiles_update_policy_def)
  from insert_rating_Inr(6) [OF assms(1)]
  have "db' = ?db1\<lparr>profiles := map (\<lambda>p. p) (profiles ?db1)\<rparr>"
    unfolding update_profile_stats_def Let_def by (simp add: miss split: if_splits)
  then show ?thesis by simp
qed


lemma round_div_int:
  assumes "0 < b"
  shows "\<bar>2 * b * round_div a b - 2 * a\<bar> \<le> b"
proof -
  have *: "\<bar>2 * b * ((2 * c + b) div (2 * b)) - 2 * c\<bar> \<le> b" for c
  proof -
    let ?r = "(2 * c + b) mod (2 * b)"
    have "0 \<le> ?r" and "?r < 2 * b" using assms by simp_all
    moreover have "2 * b * ((2 * c + b) div (2 * b)) = 2 * c + b - ?r"
      by (simp add: minus_mod_eq_mult_div)
    ultimately show ?thesis by linarith
  qed
  show ?thesis using * [of a] * [of "- a"] by (auto simp: round_div_def)
qed

lemma round_div_bound:
  assumes "0 < b"
  shows "\<bar>of_int (round_div a b) - (of_int a / of_int b :: rat)\<bar> \<le> 1 / 2"
proof -
  let ?q = "of_int (round_div a b) :: rat" and ?a = "of_int a :: rat" and ?b = "of_int b :: rat"
  have b: "0 < ?b" using assms by simp
  from round_div_int [OF assms, of a]
  have lo: "- b \<le> 2 * b * round_div a b - 2 * a" and hi: "2 * b * round_div a b - 2 * a \<le> b"
    by linarith+
  have "(of_int (- b) :: rat) \<le> of_int (2 * b * round_div a b - 2 * a)"
    using lo by (simp only: of_int_le_iff)
  then have lo': "- ?b \<le> 2 * ?b * ?q - 2 * ?a" by simp
  have "(of_int (2 * b * round_div a b - 2 * a) :: rat) \<le> of_int b"
    using hi by (simp only: of_int_le_iff)
  then have hi': "2 * ?b * ?q - 2 * ?a \<le> ?b" by simp
  have "?q - ?a / ?b \<le> 1 / 2" using b hi' by (simp add: field_simps)
  moreover have "- (1 / 2) \<le> ?q - ?a / ?b" using b lo' by (simp add: field_simps)
  ultimately show ?thesis by linarith
qed

lemma filter_filter_absorb:
  "(\<And>x. x \<in> set xs \<Longrightarrow> P x \<Longrightarrow> Q x) \<Longrightarrow> filter P (filter Q xs) = filter P xs"
  by (induction xs) auto

lemmas rating_defs = insert_rating_def update_profile_stats_def select_ratings_def
  ratings_select_policy_def ratings_insert_policy_def profiles_select_policy_def
  profiles_update_policy_def already_rated_def is_admin_def avg_rating_def round_div_def

lemma store3_insert:
  "\<exists>db'. insert_rating ''ann'' (ann_rates ''r3'' 4) store3 = Inr db'
     \<and> stats db' = [(''ann'', 0, 0), (''bob'', 433, 3)]
     \<and> ratings db' = [ann_rates ''r1'' 5, ann_rates ''r2'' 4, ann_rates ''r3'' 4]"
  by (simp add: rating_defs store3_def store1_def swap1_def ann_rates_def stats_def Let_def)


lemma single_Some: "single rows = Some r \<longleftrightarrow> rows = [r]"
  by (auto simp: single_def split: list.splits)








lemma store1_rate:
  "submitRating (Some (swap1 Completed)) ''ann'' 5 (utf16 '' great '') (store1 Completed) = Inr store1_rated"
  by (simp add: submitRating_def rating_defs store1_rated_def store1_def swap1_def Let_def
      trim_def is_space_def or_null_def utf16_def)

section \<open>C2: one rating per request and rater\<close>

text \<open>
  C2: the pair (request, rater) is unique among the ratings. The store holds the
  constraint \<^verbatim>\<open>UNIQUE(request_id, rater_id)\<close>: a successful insert into a table that
  satisfies it appends the one new row, leaves every earlier rating as it was and leaves
  the table satisfying it; afterwards every insert for the same request and rater fails,
  with the unique violation when the row is otherwise acceptable, and a failed insert
  leaves no trace.
\<close>

theorem rating_unique_per_request_and_rater:
  assumes "ratings_unique db" and "insert_rating uid new db = Inr db'"
  shows "ratings_unique db' \<and> ratings db' = ratings db @ [new]
    \<and> (\<forall>uid2 again. rating_key again = rating_key new \<longrightarrow>
          (\<exists>e. insert_rating uid2 again db' = Inl e)
          \<and> (uid2 = rater_id again \<and> 1 \<le> rating_value again \<and> rating_value again \<le> 5
               \<longrightarrow> insert_rating uid2 again db' = Inl UniqueViolation))"
proof (intro conjI allI impI)
  note ins = insert_rating_Inr [OF assms(2)]
  show app: "ratings db' = ratings db @ [new]" by (rule ins(1))
  have "rating_key new \<notin> rating_key ` set (ratings db)"
    using ins(3) by (simp add: already_rated_iff rating_key_def)
  then show "ratings_unique db'"
    using assms(1) by (simp add: ratings_unique_def app)
  fix uid2 again
  assume k: "rating_key again = rating_key new"
  then have dup: "already_rated db' (request_id again) (rater_id again)"
    by (simp add: already_rated_def list_ex_iff app rating_key_def)
  then show "\<exists>e. insert_rating uid2 again db' = Inl e" by (rule insert_rating_duplicate)
  assume "uid2 = rater_id again \<and> 1 \<le> rating_value again \<and> rating_value again \<le> 5"
  with dup show "insert_rating uid2 again db' = Inl UniqueViolation"
    by (simp add: insert_rating_def ratings_insert_policy_def)
qed

theorem rating_unique_per_request_and_rater_witness:
  "ratings_unique store3
   \<and> (\<exists>db'. insert_rating ''ann'' (ann_rates ''r3'' 4) store3 = Inr db' \<and> ratings_unique db'
          \<and> insert_rating ''ann'' (ann_rates ''r3'' 1) db' = Inl UniqueViolation)"
proof -
  have u: "ratings_unique store3"
    by (simp add: ratings_unique_def store3_def rating_key_def ann_rates_def)
  from store3_insert obtain db' where ins: "insert_rating ''ann'' (ann_rates ''r3'' 4) store3 = Inr db'"
    by blast
  from rating_unique_per_request_and_rater [OF u ins]
  have "ratings_unique db'" and "insert_rating ''ann'' (ann_rates ''r3'' 1) db' = Inl UniqueViolation"
    by (simp_all add: rating_key_def ann_rates_def)
  with u ins show ?thesis by blast
qed

section \<open>C3: the aggregate on the rated profile\<close>

text \<open>
  What the trigger computes where its \<^verbatim>\<open>UPDATE\<close> reaches the rated user's profile,
  that is for a rating inserted by an administrator or by the rated user: the mean of
  all ratings that user received, as the \<^verbatim>\<open>DECIMAL(3,2)\<close> column holds it (rounded to
  hundredths, so within \<open>0.005\<close> of the mean), and the number of distinct requests among
  them. Ann's third rating of Bob makes the mean of \<open>5, 4, 4\<close>; the column holds
  \<open>4.33\<close>.
\<close>

lemma trigger_computes_rounded_mean:
  assumes "insert_rating uid new db = Inr db'" and "uid = rated_id new \<or> is_admin db uid"
    and "p \<in> set (profiles db')" and "pf_user_id p = rated_id new"
  shows "rated_rows db' (rated_id new) \<noteq> []
    \<and> average_rating p = round_div (100 * sum_list (map rating_value (rated_rows db' (rated_id new))))
                            (int (length (rated_rows db' (rated_id new))))
    \<and> \<bar>of_int (average_rating p) / 100
        - (of_int (sum_list (map rating_value (rated_rows db' (rated_id new))))
           / of_int (int (length (rated_rows db' (rated_id new)))) :: rat)\<bar> \<le> 1 / 200
    \<and> successful_swaps p = int (card (request_id ` set (rated_rows db' (rated_id new))))"
proof -
  let ?db1 = "db\<lparr>ratings := ratings db @ [new]\<rparr>"
  let ?rs = "filter (\<lambda>r. rated_id r = rated_id new) (ratings ?db1)"
  note ins = insert_rating_Inr [OF assms(1)]
  have adm: "is_admin ?db1 uid = is_admin db uid" by (simp add: is_admin_def)
  have rs: "rated_rows db' (rated_id new) = ?rs"
    by (simp add: rated_rows_def ins(1))
  have seen: "filter (\<lambda>r. rated_id r = rated_id new) (select_ratings uid ?db1) = ?rs"
    unfolding select_ratings_def using assms(2)
    by (intro filter_filter_absorb) (auto simp: ratings_select_policy_def adm)
  have ne: "?rs \<noteq> []" by simp
  define f where "f = (\<lambda>q. if pf_user_id q = rated_id new \<and> profiles_select_policy ?db1 uid q
                   \<and> profiles_update_policy ?db1 uid q
      then q\<lparr>successful_swaps := int (length (remdups (map request_id ?rs))),
             average_rating := avg_rating (map rating_value ?rs)\<rparr> else q)"
  have "db' = ?db1\<lparr>profiles := map f (profiles ?db1)\<rparr>"
    using ins(6) unfolding update_profile_stats_def Let_def seen f_def
    by (simp split: if_splits)
  then have prof: "profiles db' = map f (profiles db)" by simp
  from assms(3) obtain q where q: "q \<in> set (profiles db)" and p: "p = f q"
    unfolding prof by auto
  have "pf_user_id q = rated_id new" using assms(4) p by (auto simp: f_def split: if_splits)
  then have p': "p = q\<lparr>successful_swaps := int (length (remdups (map request_id ?rs))),
             average_rating := avg_rating (map rating_value ?rs)\<rparr>"
    using assms(2) p
    by (auto simp: f_def profiles_select_policy_def profiles_update_policy_def adm)
  let ?n = "int (length ?rs)" and ?t = "sum_list (map rating_value ?rs)"
  have n: "0 < ?n" by simp
  have avg: "average_rating p = round_div (100 * ?t) ?n"
    using ne by (simp add: p' avg_rating_def)
  have "\<bar>of_int (round_div (100 * ?t) ?n) - (of_int (100 * ?t) / of_int ?n :: rat)\<bar> \<le> 1 / 2"
    using n by (rule round_div_bound)
  then have bound: "\<bar>of_int (average_rating p) / 100 - (of_int ?t / of_int ?n :: rat)\<bar> \<le> 1 / 200"
    unfolding avg by (simp add: field_simps abs_le_iff)
  have swaps: "successful_swaps p = int (card (request_id ` set ?rs))"
    by (simp add: p' length_remdups_card_conv)
  show ?thesis unfolding rs using ne avg bound swaps by blast
qed

lemma trigger_computes_rounded_mean_example:
  "\<exists>db' p. insert_rating ''ann'' (ann_rates ''r3'' 4) store3 = Inr db' \<and> is_admin store3 ''ann''
      \<and> p \<in> set (profiles db') \<and> pf_user_id p = ''bob''
      \<and> map rating_value (rated_rows db' ''bob'') = [5, 4, 4]
      \<and> average_rating p = 433 \<and> successful_swaps p = 3"
proof -
  from store3_insert obtain db' where ins: "insert_rating ''ann'' (ann_rates ''r3'' 4) store3 = Inr db'"
    and st: "stats db' = [(''ann'', 0, 0), (''bob'', 433, 3)]"
    and rt: "ratings db' = [ann_rates ''r1'' 5, ann_rates ''r2'' 4, ann_rates ''r3'' 4]"
    by blast
  from st have "\<exists>p. p \<in> set (profiles db') \<and> pf_user_id p = ''bob''"
    by (fastforce simp: stats_def map_eq_Cons_conv)
  then obtain p where p: "p \<in> set (profiles db')" "pf_user_id p = ''bob''" by blast
  have adm: "is_admin store3 ''ann''" by (simp add: is_admin_def store3_def)
  have rr: "rated_rows db' ''bob'' = [ann_rates ''r1'' 5, ann_rates ''r2'' 4, ann_rates ''r3'' 4]"
    by (simp add: rated_rows_def rt ann_rates_def)
  have new: "rated_id (ann_rates ''r3'' 4) = ''bob''" by (simp add: ann_rates_def)
  from trigger_computes_rounded_mean [OF ins disjI2 [OF adm] p(1)] p(2)
  have "average_rating p = 433 \<and> successful_swaps p = 3"
    by (simp add: new rr) (simp add: ann_rates_def round_div_def)
  with ins adm p rr show ?thesis by (auto simp: ann_rates_def)
qed

lemma average_is_rounded:
  "(\<exists>db'. insert_rating ''ann'' (ann_rates ''r3'' 4) store3 = Inr db'
      \<and> stats db' = [(''ann'', 0, 0), (''bob'', 433, 3)]
      \<and> map rating_value (rated_rows db' ''bob'') = [5, 4, 4])
   \<and> (of_int 433 / 100 :: rat) \<noteq> of_int (5 + 4 + 4) / 3"
  using store3_insert by (auto simp: rated_rows_def ann_rates_def)

text \<open>
  C3: after every successful insert of a rating the rated user's aggregate is the mean
  of the ratings received and the count of distinct requests rated. The code does not
  do this for the ratings the rating page sends. \<^verbatim>\<open>update_profile_stats()\<close> is meant to
  ("Update the rated user's average rating and successful swaps count"), but it lacks
  the \<^verbatim>\<open>SECURITY DEFINER\<close> of the other functions of the migrations, so its \<^verbatim>\<open>UPDATE\<close>
  runs as the rater, and "Users can update their own profile" hides the partner's
  profile from it. For a rater who is neither the rated user nor an administrator the
  insert succeeds, the rating is stored, and no profile changes; that is every rating
  submitted through the page by an ordinary participant of a swap between two users.
  Ann rates Bob \<open>5\<close>: Bob has received one rating of \<open>5\<close> for one request, and his
  profile still says \<open>0.00\<close> and no swaps.
\<close>

theorem partner_rating_leaves_aggregate:
  "(insert_rating uid new db = Inr db' \<and> uid \<noteq> rated_id new \<and> \<not> is_admin db uid
    \<longrightarrow> ratings db' = ratings db @ [new] \<and> profiles db' = profiles db)
   \<and> (submitRating (Some sr) uid v fb db = Inr db' \<and> participant uid sr
        \<and> requester_id sr \<noteq> provider_id sr \<and> \<not> is_admin db uid
    \<longrightarrow> length (ratings db') = Suc (length (ratings db)) \<and> profiles db' = profiles db)"
proof (intro conjI impI)
  assume a: "insert_rating uid new db = Inr db' \<and> uid \<noteq> rated_id new \<and> \<not> is_admin db uid"
  then have "db' = db\<lparr>ratings := ratings db @ [new]\<rparr>"
    using insert_rating_partner [of uid new db db'] by blast
  then show "ratings db' = ratings db @ [new]" and "profiles db' = profiles db" by simp_all
next
  assume a: "submitRating (Some sr) uid v fb db = Inr db' \<and> participant uid sr
        \<and> requester_id sr \<noteq> provider_id sr \<and> \<not> is_admin db uid"
  let ?new = "\<lparr>request_id = sr_id sr, rater_id = uid,
          rated_id = (if requester_id sr = uid then provider_id sr else requester_id sr),
          rating_value = v, feedback = or_null (trim fb)\<rparr>"
  from a have ins: "insert_rating uid ?new db = Inr db'"
    by (auto simp: submitRating_def Let_def split: if_splits sum.splits)
  have other: "uid \<noteq> rated_id ?new" using a by (auto simp: participant_def)
  from insert_rating_partner [OF ins other] a
  have "db' = db\<lparr>ratings := ratings db @ [?new]\<rparr>" by simp
  then show "length (ratings db') = Suc (length (ratings db))" and "profiles db' = profiles db"
    by simp_all
qed

theorem partner_rating_leaves_aggregate_witness:
  "submitRating (Some (swap1 Completed)) ''ann'' 5 (utf16 '' great '') (store1 Completed)
     = Inr store1_rated
   \<and> participant ''ann'' (swap1 Completed) \<and> \<not> is_admin (store1 Completed) ''ann''
   \<and> map rating_value (rated_rows store1_rated ''bob'') = [5]
   \<and> map request_id (rated_rows store1_rated ''bob'') = [''r1'']
   \<and> profiles store1_rated = profiles (store1 Completed)
   \<and> stats store1_rated = [(''ann'', 0, 0), (''bob'', 0, 0)]"
proof -
  have adm: "\<not> is_admin (store1 Completed) ''ann''" by (simp add: is_admin_def store1_def)
  from partner_rating_leaves_aggregate [of "''ann''" _ "store1 Completed" store1_rated
      "swap1 Completed" 5 "utf16 '' great ''"] store1_rate adm
  have same: "profiles store1_rated = profiles (store1 Completed)"
    by (simp add: store1_facts) (simp add: swap1_def)
  have rows: "map rating_value (rated_rows store1_rated ''bob'') = [5]"
    "map request_id (rated_rows store1_rated ''bob'') = [''r1'']"
    by (simp_all add: rated_rows_def store1_rated_def)
  have st: "stats store1_rated = [(''ann'', 0, 0), (''bob'', 0, 0)]"
    unfolding stats_def same by (simp add: store1_def)
  show ?thesis using store1_rate adm same rows st by (simp add: store1_facts)
qed

section \<open>C5: who may submit a rating, and once only\<close>




section \<open>C9: messages in creation order\<close>

lemma participant_sees_messages:
  assumes "single (filter (\<lambda>r. sr_id r = rid) (select_skill_requests uid db)) = Some sr"
    and "participant uid sr"
  shows "filter (\<lambda>m. skill_request_id m = rid) (select_messages uid db)
         = filter (\<lambda>m. skill_request_id m = rid) (messages db)"
proof -
  from assms(1) have "filter (\<lambda>r. sr_id r = rid) (select_skill_requests uid db) = [sr]"
    by (simp add: single_Some)
  then have "sr \<in> set (filter (\<lambda>r. sr_id r = rid) (select_skill_requests uid db))" by simp
  then have sr: "sr \<in> set (select_skill_requests uid db)" "sr_id sr = rid" by simp_all
  show ?thesis
    unfolding select_messages_def
  proof (rule filter_filter_absorb)
    fix m :: message
    assume "m \<in> set (messages db)" and "skill_request_id m = rid"
    with sr assms(2) show "messages_select_policy db uid m"
      by (auto simp: messages_select_policy_def list_ex_iff participant_def)
  qed
qed

text \<open>
  C9: the messages of a request are listed in ascending (non-decreasing) order of their
  creation time. The list \<^verbatim>\<open>fetchChatData\<close> leaves is sorted on \<^verbatim>\<open>created_at\<close>, the
  only ordering column a message has; it holds messages of that request only, and for a
  caller who is a participant of the request it holds every one of them, once.
\<close>

theorem messages_ascending:
  "sorted (map created_at (fetchChatData uid rid db))
   \<and> set (fetchChatData uid rid db) \<subseteq> {m \<in> set (messages db). skill_request_id m = rid}
   \<and> (single (filter (\<lambda>r. sr_id r = rid) (select_skill_requests uid db)) = Some sr
        \<and> participant uid sr
      \<longrightarrow> mset (fetchChatData uid rid db)
           = mset (filter (\<lambda>m. skill_request_id m = rid) (messages db)))"
proof (intro conjI impI)
  show "sorted (map created_at (fetchChatData uid rid db))"
    by (simp add: fetchChatData_def split: option.splits)
  show "set (fetchChatData uid rid db) \<subseteq> {m \<in> set (messages db). skill_request_id m = rid}"
    by (auto simp: fetchChatData_def select_messages_def split: option.splits)
  assume a: "single (filter (\<lambda>r. sr_id r = rid) (select_skill_requests uid db)) = Some sr
        \<and> participant uid sr"
  then show "mset (fetchChatData uid rid db)
           = mset (filter (\<lambda>m. skill_request_id m = rid) (messages db))"
    using participant_sees_messages [of rid uid db sr] by (simp add: fetchChatData_def)
qed

theorem messages_ascending_witness:
  "map created_at (messages chat1) = [30, 10, 15, 20]
   \<and> single (filter (\<lambda>r. sr_id r = ''r1'') (select_skill_requests ''ann'' chat1)) = Some (swap1 Accepted)
   \<and> participant ''ann'' (swap1 Accepted)
   \<and> map content (fetchChatData ''ann'' ''r1'' chat1) = [''hi'', ''hello'', ''see you'']
   \<and> sorted (map created_at (fetchChatData ''ann'' ''r1'' chat1))
   \<and> size (mset (fetchChatData ''ann'' ''r1'' chat1)) = 3"
proof -
  have one: "single (filter (\<lambda>r. sr_id r = ''r1'') (select_skill_requests ''ann'' chat1))
             = Some (swap1 Accepted)"
    by (simp add: single_def select_skill_requests_def skill_requests_select_policy_def
        chat1_def store1_def swap1_def)
  have run: "map content (fetchChatData ''ann'' ''r1'' chat1) = [''hi'', ''hello'', ''see you'']"
    unfolding fetchChatData_def one
    by (simp add: select_messages_def messages_select_policy_def select_skill_requests_def
        skill_requests_select_policy_def chat1_def store1_def swap1_def)
  have raw: "map created_at (messages chat1) = [30, 10, 15, 20]" by (simp add: chat1_def)
  from messages_ascending [of "''ann''" "''r1''" chat1 "swap1 Accepted"] one
  have "sorted (map created_at (fetchChatData ''ann'' ''r1'' chat1))"
    and "mset (fetchChatData ''ann'' ''r1'' chat1)
         = mset (filter (\<lambda>m. skill_request_id m = ''r1'') (messages chat1))"
    by (simp_all add: store1_facts)
  then show ?thesis using one run raw by (simp add: store1_facts chat1_def)
qed

section \<open>C4: a second pending request for the same swap\<close>

lemma handleSubmitRequest_Inr:
  assumes "handleSubmitRequest (Some uid) page new_id db = Inr db'"
    and "targetUser page = Some target"
  shows "db' = db\<lparr>skill_requests := skill_requests db @ [new_request new_id uid target page]\<rparr>"
    and "selectedOfferedSkill page \<noteq> []" and "selectedWantedSkill page \<noteq> []"
    and "uid \<in> set (auth_users db)" and "pf_user_id target \<in> set (auth_users db)"
    and "list_ex (\<lambda>s. sk_id s = selectedOfferedSkill page) (skills db)"
    and "list_ex (\<lambda>s. sk_id s = selectedWantedSkill page) (skills db)"
  using assms
  by (auto simp: handleSubmitRequest_def insert_skill_request_def new_request_def
      split: if_splits sum.splits)

lemma handleSubmitRequest_again:
  assumes "handleSubmitRequest (Some uid) page id1 db = Inr db1"
    and "targetUser page = Some target"
    and "\<not> list_ex (\<lambda>r. sr_id r = id2) (skill_requests db1)"
  shows "handleSubmitRequest (Some uid) page id2 db1
         = Inr (db1\<lparr>skill_requests := skill_requests db
                  @ [new_request id1 uid target page, new_request id2 uid target page]\<rparr>)"
proof -
  note h = handleSubmitRequest_Inr [OF assms(1,2)]
  have db1: "skill_requests db1 = skill_requests db @ [new_request id1 uid target page]"
    and same: "auth_users db1 = auth_users db" "skills db1 = skills db"
    by (simp_all add: h(1))
  have "insert_skill_request uid (new_request id2 uid target page) db1
        = Inr (db1\<lparr>skill_requests := skill_requests db1 @ [new_request id2 uid target page]\<rparr>)"
    using assms(3) h(4-7)
    by (simp add: insert_skill_request_def skill_requests_insert_policy_def same)
      (simp add: new_request_def)
  then show ?thesis
    using h(2,3) assms(2) by (simp add: handleSubmitRequest_def db1)
qed

lemma createSwapRequest_existing:
  assumes "existingSwap me body m"
  shows "snd (createSwapRequest me body m) = m" and "fst (createSwapRequest me body m) \<noteq> Created s"
  using assms by (auto simp: createSwapRequest_def Let_def split: option.splits)

lemma createSwapRequest_Created:
  assumes "fst (createSwapRequest me body m) = Created s"
  shows "\<not> existingSwap me body m"
    and "swap_requests (snd (createSwapRequest me body m)) = swap_requests m @ [s]"
    and "swap_status s = Pending"
  using assms by (auto simp: createSwapRequest_def Let_def split: option.splits if_splits)

lemma store1_submit_again:
  "handleSubmitRequest (Some ''ann'') page1 ''r2'' (store1 Pending) = Inr store1_twice"
  by (simp add: handleSubmitRequest_def insert_skill_request_def skill_requests_insert_policy_def
      new_request_def page1_def store1_twice_def store1_def swap1_def trim_def or_null_def)

text \<open>
  C4, as the specification has it: no constraint of the store blocks a second pending
  request for the same requester, provider and skills, but the operation that creates a
  request first looks for one and refuses to insert when it finds it. The client's
  \<^verbatim>\<open>handleSubmitRequest\<close> sends the insert without looking: with Ann's pending request
  to Bob in the store, her form for the same two skills is inserted as a second pending
  row.
\<close>

theorem duplicate_pending_counterexample:
  "list_ex (\<lambda>r. requester_id r = ''ann'' \<and> provider_id r = ''bob'' \<and> offered_skill_id r = ''s1''
               \<and> wanted_skill_id r = ''s2'' \<and> status r = Pending) (skill_requests (store1 Pending))
   \<and> handleSubmitRequest (Some ''ann'') page1 ''r2'' (store1 Pending) = Inr store1_twice
   \<and> map (\<lambda>r. (requester_id r, provider_id r, offered_skill_id r, wanted_skill_id r, status r))
        (skill_requests store1_twice)
     = [(''ann'', ''bob'', ''s1'', ''s2'', Pending), (''ann'', ''bob'', ''s1'', ''s2'', Pending)]"
  by (simp add: store1_submit_again) (simp add: store1_twice_def store1_def swap1_def)

text \<open>
  C4, amended: no constraint of the store blocks a second pending request for the same
  requester, provider and skills, and \<^verbatim>\<open>handleSubmitRequest\<close> of the client makes no
  check of its own: a form that was inserted once is inserted again as it stands (under
  the next generated id), and both rows are pending. The existence check is in the
  prototype REST handler \<^verbatim>\<open>createSwapRequest\<close> only: when a pending swap of the caller
  with the same recipient and skills exists, it stores nothing and never answers 201 (it
  answers 400 "You already have a pending request for this swap" when the earlier checks
  pass), and a request it does create is pending and had no such predecessor.
\<close>

theorem duplicate_pending_request:
  "(handleSubmitRequest (Some uid) page id1 db = Inr db1 \<and> targetUser page = Some target
      \<and> \<not> list_ex (\<lambda>r. sr_id r = id2) (skill_requests db1)
    \<longrightarrow> handleSubmitRequest (Some uid) page id2 db1
          = Inr (db1\<lparr>skill_requests := skill_requests db
                   @ [new_request id1 uid target page, new_request id2 uid target page]\<rparr>)
        \<and> status (new_request id1 uid target page) = Pending)
   \<and> (existingSwap me body m
    \<longrightarrow> snd (createSwapRequest me body m) = m
        \<and> (\<forall>s. fst (createSwapRequest me body m) \<noteq> Created s))
   \<and> (existingSwap me body m \<and> findById (users m) (body_recipient body) = Some rcp
        \<and> findById (users m) me = Some rq
        \<and> body_offeredSkill body \<in> set (skillsOffered rq)
        \<and> body_requestedSkill body \<in> set (skillsOffered rcp)
    \<longrightarrow> fst (createSwapRequest me body m)
          = BadRequest ''You already have a pending request for this swap'')
   \<and> (fst (createSwapRequest me body m) = Created s
    \<longrightarrow> \<not> existingSwap me body m
        \<and> swap_requests (snd (createSwapRequest me body m)) = swap_requests m @ [s]
        \<and> swap_status s = Pending)"
proof (intro conjI impI allI)
  assume a: "handleSubmitRequest (Some uid) page id1 db = Inr db1 \<and> targetUser page = Some target
      \<and> \<not> list_ex (\<lambda>r. sr_id r = id2) (skill_requests db1)"
  then show "handleSubmitRequest (Some uid) page id2 db1
          = Inr (db1\<lparr>skill_requests := skill_requests db
                   @ [new_request id1 uid target page, new_request id2 uid target page]\<rparr>)"
    using handleSubmitRequest_again [of uid page id1 db db1 target id2] by simp
  show "status (new_request id1 uid target page) = Pending" by (simp add: new_request_def)
next
  assume e: "existingSwap me body m"
  then show "snd (createSwapRequest me body m) = m" by (rule createSwapRequest_existing(1))
  show "fst (createSwapRequest me body m) \<noteq> Created s" for s
    using e by (rule createSwapRequest_existing(2))
next
  assume "existingSwap me body m \<and> findById (users m) (body_recipient body) = Some rcp
        \<and> findById (users m) me = Some rq
        \<and> body_offeredSkill body \<in> set (skillsOffered rq)
        \<and> body_requestedSkill body \<in> set (skillsOffered rcp)"
  then show "fst (createSwapRequest me body m)
          = BadRequest ''You already have a pending request for this swap''"
    by (simp add: createSwapRequest_def)
next
  assume c: "fst (createSwapRequest me body m) = Created s"
  show "\<not> existingSwap me body m" using c by (rule createSwapRequest_Created(1))
  show "swap_requests (snd (createSwapRequest me body m)) = swap_requests m @ [s]"
    using c by (rule createSwapRequest_Created(2))
  show "swap_status s = Pending" using c by (rule createSwapRequest_Created(3))
qed

theorem duplicate_pending_request_witness:
  "handleSubmitRequest (Some ''ann'') page1 ''r2'' (store1 Pending) = Inr store1_twice
   \<and> \<not> list_ex (\<lambda>r. sr_id r = ''r3'') (skill_requests store1_twice)
   \<and> (\<exists>db2. handleSubmitRequest (Some ''ann'') page1 ''r3'' store1_twice = Inr db2
          \<and> map status (skill_requests db2) = [Pending, Pending, Pending])
   \<and> existingSwap ''ann'' body1 mongo1
   \<and> createSwapRequest ''ann'' body1 mongo1
       = (BadRequest ''You already have a pending request for this swap'', mongo1)
   \<and> (\<exists>s. fst (createSwapRequest ''ann'' body1 (mongo1\<lparr>swap_requests := []\<rparr>)) = Created s
          \<and> swap_status s = Pending)"
proof -
  have t: "targetUser page1 = Some \<lparr>pf_user_id = ''bob'', full_name = ''Bob'', is_public = True,
                                is_banned = False, successful_swaps = 0, average_rating = 0\<rparr>"
    by (simp add: page1_def)
  have fresh: "\<not> list_ex (\<lambda>r. sr_id r = ''r3'') (skill_requests store1_twice)"
    by (simp add: store1_twice_def swap1_def)
  have ex: "existingSwap ''ann'' body1 mongo1"
    by (simp add: existingSwap_def body1_def mongo1_def)
  have f: "findById (users mongo1) (body_recipient body1) = Some \<lparr>mu_id = ''bob'', skillsOffered = [''French'']\<rparr>"
    "findById (users mongo1) ''ann'' = Some \<lparr>mu_id = ''ann'', skillsOffered = [''Piano'']\<rparr>"
    by (simp_all add: findById_def body1_def mongo1_def)
  have c: "fst (createSwapRequest ''ann'' body1 (mongo1\<lparr>swap_requests := []\<rparr>))
           = Created \<lparr>requester = ''ann'', recipient = ''bob'', offeredSkill = ''Piano'',
                 requestedSkill = ''French'', swap_status = Pending, swap_message = None\<rparr>"
    by (simp add: createSwapRequest_def findById_def existingSwap_def body1_def mongo1_def Let_def)
  note d = duplicate_pending_request [of "''ann''" page1 "''r2''" "store1 Pending" store1_twice
      "\<lparr>pf_user_id = ''bob'', full_name = ''Bob'', is_public = True,
                                is_banned = False, successful_swaps = 0, average_rating = 0\<rparr>"
      "''r3''" "''ann''" body1 mongo1
      "\<lparr>mu_id = ''bob'', skillsOffered = [''French'']\<rparr>"
      "\<lparr>mu_id = ''ann'', skillsOffered = [''Piano'']\<rparr>" undefined]
  from d [THEN conjunct1, THEN mp] store1_submit_again t fresh
  obtain db2 where db2: "handleSubmitRequest (Some ''ann'') page1 ''r3'' store1_twice = Inr db2"
    and rows: "skill_requests db2 = skill_requests (store1 Pending)
        @ [new_request ''r2'' ''ann'' \<lparr>pf_user_id = ''bob'', full_name = ''Bob'', is_public = True,
              is_banned = False, successful_swaps = 0, average_rating = 0\<rparr> page1,
           new_request ''r3'' ''ann'' \<lparr>pf_user_id = ''bob'', full_name = ''Bob'', is_public = True,
              is_banned = False, successful_swaps = 0, average_rating = 0\<rparr> page1]"
    by simp
  have "map status (skill_requests db2) = [Pending, Pending, Pending]"
    unfolding rows by (simp add: new_request_def store1_facts)
  with db2 have again: "\<exists>db2. handleSubmitRequest (Some ''ann'') page1 ''r3'' store1_twice = Inr db2
          \<and> map status (skill_requests db2) = [Pending, Pending, Pending]"
    by (intro exI [of _ db2] conjI)
  have sk: "body_offeredSkill body1 \<in> set [''Piano'']" "body_requestedSkill body1 \<in> set [''French'']"
    by (simp_all add: body1_def)
  from d [THEN conjunct2, THEN conjunct1, THEN mp, OF ex]
  have unchanged: "snd (createSwapRequest ''ann'' body1 mongo1) = mongo1" by simp
  from d [THEN conjunct2, THEN conjunct2, THEN conjunct1, THEN mp] ex f sk
  have "fst (createSwapRequest ''ann'' body1 mongo1)
         = BadRequest ''You already have a pending request for this swap''"
    by simp
  with unchanged have bad: "createSwapRequest ''ann'' body1 mongo1
       = (BadRequest ''You already have a pending request for this swap'', mongo1)"
    by (simp add: prod_eq_iff)
  show ?thesis using store1_submit_again fresh again ex bad c by simp
qed

section \<open>Role resolution: helper facts\<close>

lemma attemptFetch_length:
  "retryCount \<le> maxRetries \<Longrightarrow>
     length (snd (attemptFetch be base retryCount t)) \<le> maxRetries - retryCount + 1"
proof (induction be base retryCount t rule: attemptFetch.induct)
  case (1 be base retryCount t)
  show ?case
  proof (cases "select_role be (base + retryCount)")
    case Never
    then show ?thesis by (simp add: attemptFetch.simps [of be base retryCount t])
  next
    case (After d r)
    show ?thesis
    proof (cases "retryCount < maxRetries \<and> (r = SelectError \<or> r = SelectThrew)")
      case True
      then have "length (snd (attemptFetch be base (retryCount + 1) (t + d + 1000)))
                 \<le> maxRetries - (retryCount + 1) + 1"
        using "1.IH" After by auto
      with True After show ?thesis
        by (auto simp: attemptFetch.simps [of be base retryCount t] split: prod.splits)
    next
      case False
      with After show ?thesis
        by (cases r) (auto simp: attemptFetch.simps [of be base retryCount t]
            split: option.splits)
    qed
  qed
qed

lemma attemptFetch_spacing:
  "attemptFetch be base retryCount t = (res, ts) \<Longrightarrow>
     (\<forall>x \<in> set ts. t \<le> x) \<and> sorted_wrt (\<lambda>a b. a + 1000 \<le> b) ts"
proof (induction be base retryCount t arbitrary: res ts rule: attemptFetch.induct)
  case (1 be base retryCount t)
  show ?case
  proof (cases "select_role be (base + retryCount)")
    case Never
    with "1.prems" show ?thesis by (auto simp: attemptFetch.simps [of be base retryCount t])
  next
    case (After d r)
    show ?thesis
    proof (cases "retryCount < maxRetries \<and> (r = SelectError \<or> r = SelectThrew)")
      case True
      obtain res' ts' where rec: "attemptFetch be base (retryCount + 1) (t + d + 1000) = (res', ts')"
        by (cases "attemptFetch be base (retryCount + 1) (t + d + 1000)")
      from True After rec have ih: "(\<forall>x \<in> set ts'. t + d + 1000 \<le> x)
          \<and> sorted_wrt (\<lambda>a b. a + 1000 \<le> b) ts'"
        using "1.IH" by auto
      from "1.prems" True After rec have "ts = t # ts'"
        by (auto simp: attemptFetch.simps [of be base retryCount t])
      with ih show ?thesis by auto
    next
      case False
      with After "1.prems" show ?thesis
        by (cases r) (auto simp: attemptFetch.simps [of be base retryCount t]
            split: option.splits)
    qed
  qed
qed

lemma attemptFetch_user:
  "\<forall>k d. select_role be k \<noteq> After d (SelectData (Some Admin)) \<Longrightarrow>
   fst (attemptFetch be base retryCount t) = Some (t', role) \<Longrightarrow> role = User"
proof (induction be base retryCount t rule: attemptFetch.induct)
  case (1 be base retryCount t)
  show ?case
  proof (cases "select_role be (base + retryCount)")
    case Never
    with "1.prems"(2) show ?thesis by (simp add: attemptFetch.simps [of be base retryCount t])
  next
    case (After d r)
    show ?thesis
    proof (cases "retryCount < maxRetries \<and> (r = SelectError \<or> r = SelectThrew)")
      case True
      with After "1.prems"(2)
      have "fst (attemptFetch be base (retryCount + 1) (t + d + 1000)) = Some (t', role)"
        by (auto simp: attemptFetch.simps [of be base retryCount t] split: prod.splits)
      with True After "1.IH" "1.prems"(1) show ?thesis by auto
    next
      case False
      have "r \<noteq> SelectData (Some Admin)" using "1.prems"(1) After by auto
      with False After "1.prems"(2) show ?thesis
        by (cases r; cases role)
          (auto simp: attemptFetch.simps [of be base retryCount t] split: option.splits)
    qed
  qed
qed

lemma regular_fetch_times:
  "length (select_times (regular_fetch be sent t ins)) \<le> length sent + 6"
proof (cases "attemptFetch be (length sent) 0 t")
  case (Pair res ts)
  with attemptFetch_length [of 0 be "length sent" t] show ?thesis
    by (simp add: regular_fetch_def maxRetries_def)
qed

lemma regular_fetch_times_le:
  "length sent + 6 \<le> n \<Longrightarrow> length (select_times (regular_fetch be sent t ins)) \<le> n"
  using regular_fetch_times [of be sent t ins] by simp

lemma fetchRole_times:
  "length (select_times (fetchRole adminIntent be)) \<le> 7"
  "adminIntent \<noteq> Some ''admin'' \<Longrightarrow> length (select_times (fetchRole adminIntent be)) \<le> 6"
  by (auto simp: fetchRole_def regular_fetch_times_le
      split: settles.splits select_result.splits option.splits app_role.splits
        insert_result.splits)

lemma regular_fetch_user:
  assumes "\<forall>k d. select_role be k \<noteq> After d (SelectData (Some Admin))"
    and "resolved (regular_fetch be sent t ins) = Some (t', role)"
  shows "role = User"
  using assms attemptFetch_user [of be "length sent" 0 t t' role]
  by (auto simp: regular_fetch_def split: prod.splits)

lemma fetchRole_user:
  assumes "\<forall>k d. select_role be k \<noteq> After d (SelectData (Some Admin))"
    and "\<forall>e. insert_admin be \<noteq> After e InsertOk"
    and "resolved (fetchRole adminIntent be) = Some (t', role)"
  shows "role = User"
proof (cases "adminIntent = Some ''admin''")
  case False
  with assms(3) have "resolved (regular_fetch be [] 0 False) = Some (t', role)"
    by (simp add: fetchRole_def)
  with assms(1) show ?thesis by (rule regular_fetch_user)
next
  case True
  show ?thesis
  proof (cases "select_role be 0")
    case Never
    with True assms(3) show ?thesis by (simp add: fetchRole_def)
  next
    case (After d r)
    have r: "r \<noteq> SelectData (Some Admin)" using assms(1) After by auto
    show ?thesis
    proof (cases r)
      case SelectThrew
      with True After assms(3) show ?thesis by (simp add: fetchRole_def)
    next
      case (SelectData x)
      with r True After assms(3) have "resolved (regular_fetch be [0] d False) = Some (t', role)"
        by (cases x) (auto simp: fetchRole_def split: app_role.splits)
      with assms(1) show ?thesis by (rule regular_fetch_user)
    next
      case SelectError
      show ?thesis
      proof (cases "insert_admin be")
        case Never
        with True After SelectError assms(3) show ?thesis by (simp add: fetchRole_def)
      next
        case ins: (After e i)
        have i: "i \<noteq> InsertOk" using assms(2) ins by auto
        show ?thesis
        proof (cases i)
          case InsertOk
          with i show ?thesis by simp
        next
          case InsertThrew
          with True After SelectError ins assms(3) show ?thesis by (simp add: fetchRole_def)
        next
          case InsertError
          with True After SelectError ins assms(3)
          have "resolved (regular_fetch be [0] (d + e) True) = Some (t', role)"
            by (simp add: fetchRole_def)
          with assms(1) show ?thesis by (rule regular_fetch_user)
        qed
      qed
    qed
  qed
qed

lemma fetchUserRole_user:
  assumes "\<forall>k d. select_role be k \<noteq> After d (SelectData (Some Admin))"
    and "\<forall>e. insert_admin be \<noteq> After e InsertOk"
  shows "fetchUserRole adminIntent be = User"
proof (cases "resolved (fetchRole adminIntent be)")
  case None
  then show ?thesis by (simp add: fetchUserRole_def)
next
  case (Some p)
  obtain t' role where p: "p = (t', role)" by (cases p)
  from fetchRole_user [OF assms] Some p have "role = User" by simp
  with Some p show ?thesis by (simp add: fetchUserRole_def)
qed

lemma fetchUserRole_timeout:
  assumes "case resolved (fetchRole adminIntent be) of None \<Rightarrow> True | Some (t, role) \<Rightarrow> 8000 \<le> t"
  shows "fetchUserRole adminIntent be = User"
  using assms by (auto simp: fetchUserRole_def split: option.splits)

lemma select_fails_no_admin:
  "select_fails be k \<Longrightarrow> select_role be k \<noteq> After d (SelectData (Some Admin))"
  by (auto simp: select_fails_def)

lemma all_errors_run:
  "fetchRole None all_errors
   = \<lparr>resolved = Some (5000, User), select_times = [0, 1000, 2000, 3000, 4000, 5000],
      insert_sent = False, flag_removed = False\<rparr>"
  by (simp add: fetchRole_def regular_fetch_def attemptFetch.simps all_errors_def maxRetries_def)

lemma insert_admin_row_rejected:
  "\<exists>err. insert_user_role uid \<lparr>ur_user_id = uid, ur_role = Admin\<rparr> db = Inl err"
  "\<not> is_admin db uid \<Longrightarrow>
     insert_user_role uid \<lparr>ur_user_id = uid, ur_role = Admin\<rparr> db = Inl RlsViolation"
  by (auto simp: insert_user_role_def user_roles_insert_policy_def is_admin_def)

lemma backend_of_insert:
  "insert_admin (backend_of db uid net) \<noteq> After e InsertOk"
proof -
  obtain err where "insert_user_role uid \<lparr>ur_user_id = uid, ur_role = Admin\<rparr> db = Inl err"
    using insert_admin_row_rejected(1) by blast
  then show ?thesis
    by (auto simp: backend_of_def split: settles.splits fault.splits)
qed

lemma backend_of_select:
  "select_role (backend_of db uid net) k \<noteq> After d (SelectData x)"
  by (auto simp: backend_of_def select_own_role_def split: settles.splits fault.splits)

lemma store_resolves_user:
  "fetchUserRole adminIntent (backend_of db uid net) = User"
  by (intro fetchUserRole_user allI backend_of_select backend_of_insert)

lemma fetchRole_insert_ok:
  assumes "select_role be 0 = After d SelectError"
  shows "insert_sent (fetchRole (Some ''admin'') be)"
    and "insert_admin be = After e InsertOk \<Longrightarrow>
           fetchRole (Some ''admin'') be
           = \<lparr>resolved = Some (d + e, Admin), select_times = [0], insert_sent = True,
              flag_removed = True\<rparr>"
  using assms
  by (auto simp: fetchRole_def regular_fetch_def split: settles.splits insert_result.splits prod.splits)

lemma store1_no_admin: "\<not> is_admin (store1 s) u"
  by (simp add: is_admin_def store1_def)

lemma reads_fail_select:
  "select_role (backend_of db uid reads_fail) k = After 100 SelectError"
  by (simp add: backend_of_def reads_fail_def)

section \<open>C8: attempts, spacing, timeout\<close>

text \<open>
  C8, as the specification has it: at most 5 fetch attempts. \<^verbatim>\<open>attemptFetch\<close> retries
  while \<^verbatim>\<open>retryCount < maxRetries\<close>, with \<^verbatim>\<open>retryCount\<close> starting at 0 and
  \<^verbatim>\<open>maxRetries = 5\<close>: the first attempt and five retries. Against a store that answers
  every select with an error at once, six selects are sent, the sixth at 5000 ms, well
  before the timeout.
\<close>

theorem five_attempts_counterexample:
  "select_times (fetchRole None all_errors) = [0, 1000, 2000, 3000, 4000, 5000]
   \<and> length (select_times (fetchRole None all_errors)) = 6
   \<and> resolved (fetchRole None all_errors) = Some (5000, User)
   \<and> \<not> length (select_times (fetchRole None all_errors)) \<le> 5"
  by (simp add: all_errors_run)

text \<open>
  C8, amended: role resolution makes at most 6 fetch attempts in its retry loop (the
  first and up to 5 retries; 7 selects in all when the admin-intent entry is set, which
  adds one before the loop), each retry at least 1 second after the attempt before it,
  under a timeout of 8 seconds. When \<^verbatim>\<open>fetchRole\<close> has not resolved before the 8
  seconds are over (it hangs, or resolves later), the role is the default \<^verbatim>\<open>'user'\<close>,
  and so it is when every select fails and the insert of an admin row does not succeed.
  \<^verbatim>\<open>fetchUserRole\<close> yields a role for every input: it is a total function of the
  entry and the answers, the retry loop terminating by \<^verbatim>\<open>maxRetries - retryCount\<close>.
\<close>

theorem role_resolution_bounded:
  "length (select_times (fetchRole adminIntent be)) \<le> 7
   \<and> (adminIntent \<noteq> Some ''admin'' \<longrightarrow> length (select_times (fetchRole adminIntent be)) \<le> 6)
   \<and> (attemptFetch be base 0 t = (res, ts) \<longrightarrow>
         length ts \<le> 6 \<and> sorted_wrt (\<lambda>a b. a + 1000 \<le> b) ts)
   \<and> ((case resolved (fetchRole adminIntent be) of None \<Rightarrow> True | Some (t, role) \<Rightarrow> 8000 \<le> t)
        \<longrightarrow> fetchUserRole adminIntent be = User)
   \<and> ((\<forall>k. select_fails be k) \<and> (\<forall>e. insert_admin be \<noteq> After e InsertOk)
        \<longrightarrow> fetchUserRole adminIntent be = User)"
proof (intro conjI impI)
  show "length (select_times (fetchRole adminIntent be)) \<le> 7" by (rule fetchRole_times(1))
  show "length (select_times (fetchRole adminIntent be)) \<le> 6" if "adminIntent \<noteq> Some ''admin''"
    using that by (rule fetchRole_times(2))
next
  assume a: "attemptFetch be base 0 t = (res, ts)"
  from attemptFetch_length [of 0 be base t] a show "length ts \<le> 6" by (simp add: maxRetries_def)
  from attemptFetch_spacing [OF a] show "sorted_wrt (\<lambda>a b. a + 1000 \<le> b) ts" by simp
next
  assume "case resolved (fetchRole adminIntent be) of None \<Rightarrow> True | Some (t, role) \<Rightarrow> 8000 \<le> t"
  then show "fetchUserRole adminIntent be = User" by (rule fetchUserRole_timeout)
next
  assume "(\<forall>k. select_fails be k) \<and> (\<forall>e. insert_admin be \<noteq> After e InsertOk)"
  then show "fetchUserRole adminIntent be = User"
    by (intro fetchUserRole_user) (auto dest: select_fails_no_admin)
qed

theorem role_resolution_bounded_witness:
  "select_fails all_errors 3 \<and> insert_admin all_errors = After 0 InsertError
   \<and> attemptFetch all_errors 0 0 0 = (Some (5000, User), [0, 1000, 2000, 3000, 4000, 5000])
   \<and> length (select_times (fetchRole None all_errors)) \<le> 6
   \<and> sorted_wrt (\<lambda>a b. a + 1000 \<le> b) [0, 1000, 2000, 3000, 4000, 5000 :: nat]
   \<and> fetchUserRole None all_errors = User
   \<and> fetchUserRole (Some ''admin'') all_errors = User"
proof -
  have f: "select_fails all_errors k" for k by (simp add: select_fails_def all_errors_def)
  have i: "insert_admin all_errors = After 0 InsertError" by (simp add: all_errors_def)
  have a: "attemptFetch all_errors 0 0 0 = (Some (5000, User), [0, 1000, 2000, 3000, 4000, 5000])"
    by (simp add: attemptFetch.simps all_errors_def maxRetries_def)
  note r = role_resolution_bounded [of _ all_errors 0 0 "Some (5000, User)"
      "[0, 1000, 2000, 3000, 4000, 5000]"]
  from r [of None] have l: "length (select_times (fetchRole None all_errors)) \<le> 6" by simp
  from r [of None] a have s: "sorted_wrt (\<lambda>a b. a + 1000 \<le> b) [0, 1000, 2000, 3000, 4000, 5000 :: nat]"
    by blast
  from r [of None] f i have u: "fetchUserRole None all_errors = User" by simp
  from r [of "Some ''admin''"] f i have v: "fetchUserRole (Some ''admin'') all_errors = User" by simp
  show ?thesis using f i a l s u v by blast
qed

section \<open>C10: the admin-intent entry\<close>

text \<open>
  What the store of the two migrations answers to \<^verbatim>\<open>fetchUserRole\<close>: the insert of an
  admin row is rejected for every caller (by the policy when the caller has no admin
  row, by the uniqueness of user and role when the caller has one) and every select
  fails, so against this store \<^verbatim>\<open>fetchUserRole\<close> yields \<^verbatim>\<open>'user'\<close>, for every user and
  every value of the entry.
\<close>

lemma store_answers:
  "\<exists>err. insert_user_role uid \<lparr>ur_user_id = uid, ur_role = Admin\<rparr> db = Inl err"
  "\<not> is_admin db uid \<Longrightarrow>
     insert_user_role uid \<lparr>ur_user_id = uid, ur_role = Admin\<rparr> db = Inl RlsViolation"
  "fetchUserRole adminIntent (backend_of db uid net) = User"
  by (rule insert_admin_row_rejected(1), erule insert_admin_row_rejected(2),
      rule store_resolves_user)

lemma cached_role_wins:
  "truthy (cached_role ls) \<Longrightarrow> onAuthStateChange ls metadata_role ups be = (cached_role ls, ls)"
  by (simp add: onAuthStateChange_def)

lemma debugSetAdminRole_resolves:
  "fst (onAuthStateChange (debugSetAdminRole ls) metadata_role ups be) = Some ''admin''"
  by (simp add: onAuthStateChange_def debugSetAdminRole_def truthy_def)

lemma insert_gets_through_run:
  "\<forall>k d. select_role insert_gets_through k \<noteq> After d (SelectData (Some Admin))"
  "fetchRole (Some ''admin'') insert_gets_through
   = \<lparr>resolved = Some (250, Admin), select_times = [0], insert_sent = True, flag_removed = True\<rparr>"
  "fetchUserRole (Some ''admin'') insert_gets_through = Admin"
  by (simp_all add: fetchUserRole_def fetchRole_def insert_gets_through_def)

text \<open>
  C10: if the admin-intent entry \<^verbatim>\<open>admin_role_<userId>\<close> is \<^verbatim>\<open>'admin'\<close> and the read of
  the user's role row returns an error, role resolution sends the insert of an admin row
  for that user, and when that insert succeeds \<^verbatim>\<open>fetchRole\<close> removes the entry and
  resolves \<^verbatim>\<open>'admin'\<close>; \<^verbatim>\<open>'admin'\<close> is then the role \<^verbatim>\<open>fetchUserRole\<close> returns, unless
  read and insert took the 8 seconds of the timeout, whose \<^verbatim>\<open>'user'\<close> came first. So
  there are answers of the calls, none of them showing an admin row, for which
  \<^verbatim>\<open>fetchUserRole\<close> returns \<^verbatim>\<open>'admin'\<close>; and there is a state of the client's storage
  for which the session handler sets the role \<^verbatim>\<open>'admin'\<close> for a user who has no admin
  row in the store, whatever the store and the network answer.
\<close>

theorem admin_intent_fallback:
  "(adminIntent = Some ''admin'' \<and> select_role be 0 = After d SelectError \<longrightarrow>
      insert_sent (fetchRole adminIntent be)
      \<and> (insert_admin be = After e InsertOk \<longrightarrow>
            resolved (fetchRole adminIntent be) = Some (d + e, Admin)
            \<and> flag_removed (fetchRole adminIntent be)
            \<and> (d + e < 8000 \<longrightarrow> fetchUserRole adminIntent be = Admin)))
   \<and> (\<exists>be'. (\<forall>k d. select_role be' k \<noteq> After d (SelectData (Some Admin)))
            \<and> fetchUserRole (Some ''admin'') be' = Admin)
   \<and> (\<exists>ls db uid. \<not> is_admin db uid
          \<and> (\<forall>metadata_role ups net.
                fst (onAuthStateChange ls metadata_role ups (backend_of db uid net)) = Some ''admin''))"
proof (intro conjI impI)
  assume a: "adminIntent = Some ''admin'' \<and> select_role be 0 = After d SelectError"
  then show "insert_sent (fetchRole adminIntent be)" by (simp add: fetchRole_insert_ok(1))
  assume ok: "insert_admin be = After e InsertOk"
  from a ok have run: "fetchRole adminIntent be
           = \<lparr>resolved = Some (d + e, Admin), select_times = [0], insert_sent = True,
              flag_removed = True\<rparr>"
    by (simp add: fetchRole_insert_ok(2))
  show "resolved (fetchRole adminIntent be) = Some (d + e, Admin)" by (simp add: run)
  show "flag_removed (fetchRole adminIntent be)" by (simp add: run)
  show "fetchUserRole adminIntent be = Admin" if "d + e < 8000"
    using that by (simp add: fetchUserRole_def run)
next
  show "\<exists>be'. (\<forall>k d. select_role be' k \<noteq> After d (SelectData (Some Admin)))
            \<and> fetchUserRole (Some ''admin'') be' = Admin"
    using insert_gets_through_run(1,3) by blast
next
  have "\<not> is_admin (store1 Pending) ''ann''" by (rule store1_no_admin)
  moreover have "\<forall>metadata_role ups net.
      fst (onAuthStateChange (debugSetAdminRole \<lparr>cached_role = None, admin_role = None\<rparr>)
             metadata_role ups (backend_of (store1 Pending) ''ann'' net)) = Some ''admin''"
    by (simp add: debugSetAdminRole_resolves)
  ultimately show "\<exists>ls db uid. \<not> is_admin db uid
          \<and> (\<forall>metadata_role ups net.
                fst (onAuthStateChange ls metadata_role ups (backend_of db uid net)) = Some ''admin'')"
    by blast
qed

theorem admin_intent_fallback_witness:
  "select_role insert_gets_through 0 = After 100 SelectError
   \<and> insert_admin insert_gets_through = After 150 InsertOk
   \<and> insert_sent (fetchRole (Some ''admin'') insert_gets_through)
   \<and> resolved (fetchRole (Some ''admin'') insert_gets_through) = Some (250, Admin)
   \<and> fetchUserRole (Some ''admin'') insert_gets_through = Admin
   \<and> select_role insert_too_late 0 = After 4000 SelectError
   \<and> insert_admin insert_too_late = After 4500 InsertOk
   \<and> resolved (fetchRole (Some ''admin'') insert_too_late) = Some (8500, Admin)
   \<and> fetchUserRole (Some ''admin'') insert_too_late = User
   \<and> \<not> is_admin (store1 Pending) ''ann''
   \<and> fst (onAuthStateChange \<lparr>cached_role = Some ''admin'', admin_role = None\<rparr> None
            \<lparr>upsert_intent = Never, upsert_metadata = Never\<rparr>
            (backend_of (store1 Pending) ''ann'' reads_fail)) = Some ''admin''"
proof -
  have s: "select_role insert_gets_through 0 = After 100 SelectError"
    and i: "insert_admin insert_gets_through = After 150 InsertOk"
    by (simp_all add: insert_gets_through_def)
  from admin_intent_fallback [of "Some ''admin''" insert_gets_through 100 150] s i
  have a: "insert_sent (fetchRole (Some ''admin'') insert_gets_through)"
    and b: "resolved (fetchRole (Some ''admin'') insert_gets_through) = Some (250, Admin)"
    and c: "fetchUserRole (Some ''admin'') insert_gets_through = Admin"
    by simp_all
  have s': "select_role insert_too_late 0 = After 4000 SelectError"
    and i': "insert_admin insert_too_late = After 4500 InsertOk"
    by (simp_all add: insert_too_late_def)
  from admin_intent_fallback [of "Some ''admin''" insert_too_late 4000 4500] s' i'
  have b': "resolved (fetchRole (Some ''admin'') insert_too_late) = Some (8500, Admin)"
    by simp
  then have c': "fetchUserRole (Some ''admin'') insert_too_late = User"
    by (simp add: fetchUserRole_def)
  have d: "fst (onAuthStateChange \<lparr>cached_role = Some ''admin'', admin_role = None\<rparr> None
            \<lparr>upsert_intent = Never, upsert_metadata = Never\<rparr>
            (backend_of (store1 Pending) ''ann'' reads_fail)) = Some ''admin''"
    by (simp add: cached_role_wins truthy_def)
  show ?thesis using s i a b c s' i' b' c' d store1_no_admin [of Pending "''ann''"] by simp
qed

end
